theory Spec2Isabelle
  imports Main
begin

section \<open>JavaScript values used by the clients\<close>

text \<open>
  Strings are \<open>string\<close>. An optional property (\<open>p?: T\<close>) is a \<open>T option\<close>, \<open>None\<close> being
  \<open>undefined\<close>. A string is truthy when it is not empty, \<open>undefined\<close> is falsy.
\<close>

definition truthy :: "string option \<Rightarrow> bool" where
  "truthy v = (case v of None \<Rightarrow> False | Some s \<Rightarrow> s \<noteq> [])"

text \<open>\<open>String.prototype.endsWith\<close>.\<close>

definition endsWith :: "string \<Rightarrow> string \<Rightarrow> bool" where
  "endsWith s suf = (length suf \<le> length s \<and> drop (length s - length suf) s = suf)"

text \<open>
  A non-negative integer inside a template literal, \<open>`${n}`\<close>: its decimal digits, most
  significant first, no leading zero. \<open>digit\<close> is only applied to numbers below ten.
\<close>

definition digit :: "nat \<Rightarrow> char" where
  "digit d = ''0123456789'' ! d"

function toString :: "nat \<Rightarrow> string" where
  "toString n = (if n < 10 then [digit n] else toString (n div 10) @ [digit (n mod 10)])"
  by pat_completeness auto
termination
  by (relation "measure id") auto

declare toString.simps [simp del]

text \<open>
  The decimal numeral of a number, said without \<open>toString\<close>: a non-empty string of decimal
  digits, with no leading zero unless it is the one digit, whose value, read from the most
  significant digit on, is the number. It is what the message of \<open>graphql\<close> is compared
  with.
\<close>

definition isDigit :: "char \<Rightarrow> bool" where
  "isDigit c = (c \<in> set ''0123456789'')"

definition parseInt :: "string \<Rightarrow> nat" where
  "parseInt ds = foldl (\<lambda>n d. 10 * n + (of_char d - 48)) 0 ds"

definition decimalNumeral :: "string \<Rightarrow> nat \<Rightarrow> bool" where
  "decimalNumeral s n =
     (s \<noteq> [] \<and> list_all isDigit s \<and> (length s = 1 \<or> hd s \<noteq> CHR ''0'') \<and> parseInt s = n)"

section \<open>github-client.ts: the GraphQL call\<close>

text \<open>
  Modelled from the spec: \<open>GraphQlQueryResponse<T>\<close> (github-client.types.ts is not among
  the sources), "the wire shape of a GraphQL response body",
  \<open>{data?: T, errors?: [{message, type?}]}\<close>.
\<close>

record GraphQLError =
  message :: string
  type :: "string option"

record 'a GraphQlQueryResponse =
  data :: "'a option"
  errors :: "GraphQLError list option"

text \<open>
  \<open>AxiosResponse<T>\<close>: the transport response. Its \<open>data\<close> property is the parsed body,
  here \<open>body\<close>. \<open>graphql\<close> reads it through \<open>response.data?.errors\<close>, so for a GraphQL
  response the body is optional: a missing body is a value of its own.
\<close>

record 'b AxiosResponse =
  status :: nat
  headers :: "(string \<times> string) list"
  body :: 'b

type_synonym 'a GraphQlResponse = "'a GraphQlQueryResponse option AxiosResponse"

text \<open>The body posted to the GraphQL endpoint, \<open>{query, variables}\<close>.\<close>

record 'v GraphQlRequest =
  query :: string
  variables :: "'v option"

text \<open>
  The rejections of \<open>graphql\<close>: the rejection of \<open>this.axios.post\<close> passed on as it is, and
  the two typed failures (github-client-errors.ts is not among the sources) with the
  arguments \<open>graphql\<close> constructs them from.
\<close>

datatype ('e, 'a) graphql_rejection =
    TransportRejection 'e
  | RateLimitingError "'a GraphQlResponse"
  | GithubClientGraphQLError string "GraphQLError list"

text \<open>
  What the logger receives: \<open>this.logger.info("Using outbound proxy")\<close> and
  \<open>this.logger.warn({ res: response }, "GraphQL errors")\<close>.
\<close>

datatype 'f log_entry = Info string | Warn 'f string

text \<open>
  \<open>graphql\<close> (lines 74 to 94). \<open>post\<close> is \<open>this.axios.post\<close>: the transport with whatever
  interceptors the instance has, \<open>Inl\<close> when its promise rejects. The result is the list of
  log entries written and the settlement of the returned promise.

  \<open>graphqlErrors?.length\<close> is truthy for a present, non-empty array;
  \<open>err.type == "RATE_LIMITED"\<close> compares an optional string with a string, where loose
  equality holds for the equal string only; \<open>find\<close> returns the entry, an object, truthy.
\<close>

definition graphqlErrors :: "'a GraphQlResponse \<Rightarrow> GraphQLError list option" where
  "graphqlErrors response = (case body response of None \<Rightarrow> None | Some b \<Rightarrow> errors b)"

definition graphql ::
  "(string \<Rightarrow> 'v GraphQlRequest \<Rightarrow> 'c \<Rightarrow> 'e + 'a GraphQlResponse) \<Rightarrow> string \<Rightarrow>
   string \<Rightarrow> 'c \<Rightarrow> 'v option \<Rightarrow>
   'a GraphQlResponse log_entry list \<times> (('e, 'a) graphql_rejection + 'a GraphQlResponse)" where
  "graphql post graphqlUrl q config vars =
     (case post graphqlUrl \<lparr>query = q, variables = vars\<rparr> config of
        Inl e \<Rightarrow> ([], Inl (TransportRejection e))
      | Inr response \<Rightarrow>
          (case graphqlErrors response of
             None \<Rightarrow> ([], Inr response)
           | Some [] \<Rightarrow> ([], Inr response)
           | Some (first # others) \<Rightarrow>
               (if find (\<lambda>err. type err = Some ''RATE_LIMITED'') (first # others) \<noteq> None
                then ([Warn response ''GraphQL errors''], Inl (RateLimitingError response))
                else ([Warn response ''GraphQL errors''],
                      Inl (GithubClientGraphQLError
                             (message first @
                              (if length (first # others) > 1
                               then '' and '' @ toString (length (first # others) - 1) @
                                    '' more errors''
                               else []))
                             (first # others))))))"

section \<open>The platform's URL class\<close>

text \<open>
  \<open>getProxyConfig\<close> reads \<open>new URL(baseUrl).host\<close>. \<open>URL\<close> is the platform's WHATWG URL
  class, not code of this repository. A URL object has a \<open>protocol\<close> (with its colon), a
  \<open>hostname\<close> and a \<open>port\<close>, which is the empty string when the URL names no port or the
  default port of its scheme; \<open>host\<close> is the hostname, followed by a colon and the port when
  the port is not empty.
\<close>

record URL =
  protocol :: string
  hostname :: string
  port :: string

definition host :: "URL \<Rightarrow> string" where
  "host u = (if port u = [] then hostname u else hostname u @ '':'' @ port u)"

text \<open>
  The constructor \<open>new URL(input)\<close> is the platform's parser: it returns a URL object or
  throws a \<open>TypeError\<close>, here \<open>None\<close>. The client is modelled for whatever the parser
  answers: it is a parameter, \<open>newURL\<close>, of the functions that call it.
\<close>

type_synonym URL_constructor = "string \<Rightarrow> URL option"

section \<open>The transport library's configuration\<close>

text \<open>
  \<open>AxiosRequestConfig\<close>, with the properties the two clients set or read; every property is
  optional, so \<open>Partial<AxiosRequestConfig>\<close> is the same record. \<open>clarifyTimeoutError\<close> is
  \<open>transitional.clarifyTimeoutError\<close>; \<open>proxy\<close> is only ever given the value \<open>false\<close>;
  \<open>urlParams\<close> and \<open>requestStartTime\<close> are the properties the interceptors of this
  repository add to the library's type. Headers are kept in insertion order.
\<close>

datatype Agent = HttpProxyAgent string | HttpsProxyAgent string

record AxiosRequestConfig =
  baseURL :: "string option"
  clarifyTimeoutError :: "bool option"
  httpAgent :: "Agent option"
  httpsAgent :: "Agent option"
  proxy :: "bool option"
  "method" :: "string option"
  url :: "string option"
  urlParams :: "(string \<times> string) list option"
  headers :: "(string \<times> string) list option"
  timeout :: "nat option"
  requestStartTime :: "nat option"

text \<open>The empty object literal \<open>{}\<close>.\<close>

definition emptyConfig :: AxiosRequestConfig where
  "emptyConfig =
     \<lparr>baseURL = None, clarifyTimeoutError = None, httpAgent = None, httpsAgent = None,
      proxy = None, method = None, url = None, urlParams = None, headers = None,
      timeout = None, requestStartTime = None\<rparr>"

text \<open>
  Object spread, \<open>{...a, ...b}\<close>: the properties of \<open>b\<close> win over those of \<open>a\<close>. On the
  header map a key that is already there keeps its place and takes the new value.
\<close>

definition orElse :: "'a option \<Rightarrow> 'a option \<Rightarrow> 'a option" where
  "orElse b a = (case b of None \<Rightarrow> a | Some v \<Rightarrow> Some v)"

definition spread :: "AxiosRequestConfig \<Rightarrow> AxiosRequestConfig \<Rightarrow> AxiosRequestConfig" where
  "spread a b =
     \<lparr>baseURL = orElse (baseURL b) (baseURL a),
      clarifyTimeoutError = orElse (clarifyTimeoutError b) (clarifyTimeoutError a),
      httpAgent = orElse (httpAgent b) (httpAgent a),
      httpsAgent = orElse (httpsAgent b) (httpsAgent a),
      proxy = orElse (proxy b) (proxy a),
      method = orElse (method b) (method a),
      url = orElse (url b) (url a),
      urlParams = orElse (urlParams b) (urlParams a),
      headers = orElse (headers b) (headers a),
      timeout = orElse (timeout b) (timeout a),
      requestStartTime = orElse (requestStartTime b) (requestStartTime a)\<rparr>"

fun assign :: "(string \<times> string) list \<Rightarrow> string \<Rightarrow> string \<Rightarrow> (string \<times> string) list" where
  "assign [] k v = [(k, v)]"
| "assign ((k', v') # kvs) k v = (if k' = k then (k, v) # kvs else (k', v') # assign kvs k v)"

definition spreadHeaders ::
  "(string \<times> string) list \<Rightarrow> (string \<times> string) list \<Rightarrow> (string \<times> string) list" where
  "spreadHeaders a b = foldl (\<lambda>acc (k, v). assign acc k v) a b"

text \<open>
  The agent the library's HTTP adapter hands to the socket layer:
  \<open>isHttpsRequest ? config.httpsAgent : config.httpAgent\<close>. With \<open>proxy: false\<close> and no
  agent the connection is direct.
\<close>

definition agentFor :: "string \<Rightarrow> AxiosRequestConfig \<Rightarrow> Agent option" where
  "agentFor scheme config = (if scheme = ''https:'' then httpsAgent config else httpAgent config)"

text \<open>
  A request is sent directly, to the target itself, when it gets no agent and the library's
  own proxy handling is switched off.
\<close>

definition sentDirectly :: "string \<Rightarrow> AxiosRequestConfig \<Rightarrow> bool" where
  "sentDirectly scheme config = (agentFor scheme config = None \<and> proxy config = Some False)"

text \<open>
  An instance made by \<open>axios.create\<close>: its default configuration and the handlers registered
  with \<open>interceptors.request.use\<close> and \<open>interceptors.response.use\<close>, each list in the order of
  registration (\<open>use\<close> pushes onto the manager's handler array). A response handler is a
  pair, the function for a fulfilled promise and the one for a rejected promise, either of
  which may be \<open>undefined\<close>. The handlers are named: they are the functions github-app-client.ts
  registers.
\<close>

datatype request_interceptor =
    SetRequestStartTime | SetRequestTimeout | UrlParamsMiddleware | AppAuthentication

datatype fulfilled_handler = InstrumentRequest string

datatype rejected_handler = HandleFailedRequest | InstrumentFailedRequest string

record AxiosInstance =
  defaults :: AxiosRequestConfig
  requestInterceptors :: "request_interceptor list"
  responseInterceptors :: "(fulfilled_handler option \<times> rejected_handler option) list"

definition axios_create :: "AxiosRequestConfig \<Rightarrow> AxiosInstance" where
  "axios_create config =
     \<lparr>defaults = config, requestInterceptors = [], responseInterceptors = []\<rparr>"

definition request_use :: "AxiosInstance \<Rightarrow> request_interceptor \<Rightarrow> AxiosInstance" where
  "request_use instance onFulfilled =
     instance\<lparr>requestInterceptors := requestInterceptors instance @ [onFulfilled]\<rparr>"

definition response_use ::
  "AxiosInstance \<Rightarrow> fulfilled_handler option \<Rightarrow> rejected_handler option \<Rightarrow> AxiosInstance" where
  "response_use instance onFulfilled onRejected =
     instance\<lparr>responseInterceptors := responseInterceptors instance @ [(onFulfilled, onRejected)]\<rparr>"

section \<open>github-client.ts: construction and proxy selection\<close>

text \<open>\<open>envVars\<close> (config/env): the process-wide settings; the client reads \<open>PROXY\<close>.\<close>

record envVars =
  PROXY :: "string option"

datatype js_error = TypeError string

text \<open>\<open>noProxyConfig\<close> (lines 54 to 60).\<close>

definition noProxyConfig :: AxiosRequestConfig where
  "noProxyConfig = emptyConfig\<lparr>httpsAgent := None, proxy := Some False\<rparr>"

text \<open>\<open>outboundProxyConfig\<close> (lines 63 to 72); \<open>envVars.PROXY ? ... : undefined\<close>.\<close>

definition outboundProxyConfig :: "envVars \<Rightarrow> AxiosRequestConfig" where
  "outboundProxyConfig env =
     (let outboundProxyHttpsAgent =
            (if truthy (PROXY env) then map_option HttpsProxyAgent (PROXY env) else None)
      in emptyConfig\<lparr>httpsAgent := outboundProxyHttpsAgent, proxy := Some False\<rparr>)"

text \<open>
  \<open>getProxyConfig\<close> (lines 46 to 51); when \<open>new URL\<close> throws, so does \<open>getProxyConfig\<close>.
\<close>

definition getProxyConfig ::
  "URL_constructor \<Rightarrow> envVars \<Rightarrow> string \<Rightarrow> js_error + AxiosRequestConfig" where
  "getProxyConfig newURL env baseUrl =
     (case newURL baseUrl of
        None \<Rightarrow> Inl (TypeError ''Invalid URL'')
      | Some u \<Rightarrow>
          if endsWith (host u) ''atlassian.com'' then Inr noProxyConfig
          else Inr (outboundProxyConfig env))"

text \<open>\<open>buildProxyConfig\<close> (lines 96 to 108), with the line it logs.\<close>

definition buildProxyConfig :: "string \<Rightarrow> unit log_entry list \<times> AxiosRequestConfig" where
  "buildProxyConfig proxyBaseUrl =
     ([Info ''Using outbound proxy''],
      emptyConfig\<lparr>httpAgent := Some (HttpProxyAgent proxyBaseUrl),
                  httpsAgent := Some (HttpsProxyAgent proxyBaseUrl),
                  proxy := Some False\<rparr>)"

record GitHubConfig =
  hostname :: string
  baseUrl :: string
  apiUrl :: string
  graphqlUrl :: string
  proxyBaseUrl :: "string option"

text \<open>
  The fields of a constructed \<open>GitHubClient\<close>; \<open>axios\<close> is the instance made by
  \<open>axios.create\<close>, on which the constructor registers no interceptor.
\<close>

record GitHubClient =
  restApiUrl :: string
  graphqlUrl :: string
  axios :: AxiosInstance

text \<open>
  The constructor (lines 27 to 43): the log entries written and the client, or the error
  thrown. \<open>gitHubConfig.proxyBaseUrl ? ... : ...\<close> tests truthiness, so an empty string
  takes the second branch, as \<open>undefined\<close> does.
\<close>

definition GitHubClient_constructor ::
  "URL_constructor \<Rightarrow> envVars \<Rightarrow> GitHubConfig \<Rightarrow>
   unit log_entry list \<times> (js_error + GitHubClient)" where
  "GitHubClient_constructor newURL env gitHubConfig =
     (let create = (\<lambda>proxyConfig.
            \<lparr>restApiUrl = apiUrl gitHubConfig,
             graphqlUrl = GitHubConfig.graphqlUrl gitHubConfig,
             axios = axios_create
                       (spread (emptyConfig\<lparr>baseURL := Some (apiUrl gitHubConfig),
                                              clarifyTimeoutError := Some True\<rparr>) proxyConfig)\<rparr>);
          selected = (case getProxyConfig newURL env (apiUrl gitHubConfig) of
                        Inl e \<Rightarrow> ([], Inl e)
                      | Inr proxyConfig \<Rightarrow> ([], Inr (create proxyConfig)))
      in case proxyBaseUrl gitHubConfig of
           None \<Rightarrow> selected
         | Some p \<Rightarrow>
             if p = [] then selected
             else (case buildProxyConfig p of
                     (logs, proxyConfig) \<Rightarrow> (logs, Inr (create proxyConfig))))"

section \<open>github-app-client.ts: the App Client\<close>

subsection \<open>Collaborators\<close>

text \<open>
  Modelled from the spec: \<open>InstallationId\<close> (installation-id.ts is not among the sources),
  the "opaque identity (app id, client id, base/API URLs, a correlation uuid)"; the client
  reads its \<open>githubBaseUrl\<close> and passes the whole value to the Token Provider.
\<close>

record InstallationId =
  githubBaseUrl :: string
  appId :: nat

text \<open>
  Modelled from the spec: \<open>AppToken\<close>, \<open>{token, expiresAt}\<close>, the credential the Token
  Provider returns; the client reads \<open>token\<close>.
\<close>

record AppToken =
  token :: string
  expiresAt :: nat

text \<open>What the network answers when it does not answer with a response.\<close>

datatype failure = Timeout | ConnectionRefused | BadStatus nat

text \<open>
  What a call rejects with: the Token Provider's failure, thrown inside the header
  interceptor; the transport's failure; and either of them as \<open>handleFailedRequest\<close> rejects
  it again.
\<close>

datatype request_error =
    AuthenticationFailure string
  | TransportFailure failure
  | Classified request_error

text \<open>
  What lies outside the client. \<open>getAppToken\<close> is \<open>AppTokenHolder.getAppToken\<close>
  (app-token-holder.ts is not among the sources): given the holder's state \<open>'h\<close> and the
  installation identity it returns a token or fails, and may change the holder's state (a
  cache, a rotation). \<open>adapter\<close> is the network behind the transport library, \<open>now\<close> the
  clock, \<open>requestTimeout\<close> the configured timeout.
\<close>

record ('h, 'b) externals =
  getAppToken :: "'h \<Rightarrow> InstallationId \<Rightarrow> (string + AppToken) \<times> 'h"
  adapter :: "AxiosRequestConfig \<Rightarrow> failure + 'b AxiosResponse"
  now :: nat
  requestTimeout :: nat

text \<open>
  The state a call runs in: the Token Provider's state, which the client only reaches
  through \<open>getAppToken\<close>, and the record of what has run so far, in order: each registered
  handler as the library invokes it, and the request as it is handed to the network.
\<close>

datatype event =
    RequestInterceptor request_interceptor
  | DispatchRequest AxiosRequestConfig
  | ResponseFulfilled fulfilled_handler
  | ResponseRejected rejected_handler

record 'h state =
  holder :: 'h
  trace :: "event list"

subsection \<open>The interceptors of github-client-interceptors.ts and url-params-middleware.ts\<close>

text \<open>
  Modelled from the spec: \<open>setRequestStartTime\<close> (github-client-interceptors.ts is not among
  the sources): "record start time on the request context for later latency computation".
\<close>

definition setRequestStartTime :: "nat \<Rightarrow> AxiosRequestConfig \<Rightarrow> AxiosRequestConfig" where
  "setRequestStartTime time config = config\<lparr>requestStartTime := Some time\<rparr>"

text \<open>
  Modelled from the spec: \<open>setRequestTimeout\<close> (github-client-interceptors.ts): "enforce a
  request timeout (derive from configuration; reject the call if exceeded)". The interceptor
  sets the limit; the transport rejects with \<open>Timeout\<close> when it is exceeded.
\<close>

definition setRequestTimeout :: "nat \<Rightarrow> AxiosRequestConfig \<Rightarrow> AxiosRequestConfig" where
  "setRequestTimeout limit config = config\<lparr>timeout := Some limit\<rparr>"

text \<open>
  Modelled from the spec: \<open>urlParamsMiddleware\<close> (utils/axios/url-params-middleware.ts is not
  among the sources): "substitute named URL parameters (e.g. \<open>{owner}\<close>, \<open>{repo}\<close>) into the
  path template": every \<open>{name}\<close> of the path is replaced by the value \<open>urlParams\<close> gives
  \<open>name\<close>.
\<close>

function replaceAll :: "string \<Rightarrow> string \<Rightarrow> string \<Rightarrow> string" where
  "replaceAll pattern replacement [] = []"
| "replaceAll pattern replacement (c # cs) =
     (if pattern \<noteq> [] \<and> take (length pattern) (c # cs) = pattern
      then replacement @ replaceAll pattern replacement (drop (length pattern) (c # cs))
      else c # replaceAll pattern replacement cs)"
  by pat_completeness auto
termination
  by (relation "measure (\<lambda>(pattern, replacement, text). length text)") auto

fun substitute :: "(string \<times> string) list \<Rightarrow> string \<Rightarrow> string" where
  "substitute [] path = path"
| "substitute ((name, v) # params) path =
     substitute params (replaceAll (''{'' @ name @ ''}'') v path)"

definition urlParamsMiddleware :: "AxiosRequestConfig \<Rightarrow> AxiosRequestConfig" where
  "urlParamsMiddleware config =
     (case urlParams config of
        None \<Rightarrow> config
      | Some params \<Rightarrow> config\<lparr>url := map_option (substitute params) (url config)\<rparr>)"

text \<open>
  Modelled from the spec: \<open>handleFailedRequest\<close> (github-client-interceptors.ts): "on failure,
  classify the transport error ... before re-rejecting - the pipeline never swallows an
  error, it only enriches and re-throws it". What it logs is left out.
\<close>

definition handleFailedRequest :: "request_error \<Rightarrow> request_error + 'b AxiosResponse" where
  "handleFailedRequest err = Inl (Classified err)"

text \<open>
  Modelled from the spec: \<open>instrumentRequest\<close> and \<open>instrumentFailedRequest\<close>
  (github-client-interceptors.ts): "on the response path, record success/failure
  instrumentation ... tagged with a metric name"; recording is fire-and-forget, the response
  goes on as it is and the failure is rejected again.
\<close>

definition instrumentRequest ::
  "string \<Rightarrow> 'b AxiosResponse \<Rightarrow> request_error + 'b AxiosResponse" where
  "instrumentRequest metricName response = Inr response"

definition instrumentFailedRequest ::
  "string \<Rightarrow> request_error \<Rightarrow> request_error + 'b AxiosResponse" where
  "instrumentFailedRequest metricName err = Inl err"

subsection \<open>The client\<close>

text \<open>
  The fields of a \<open>GitHubAppClient\<close>. Its \<open>appTokenHolder\<close> is a reference to the Token
  Provider, whose state is the \<open>holder\<close> of the state a call runs in; the logger is left out.
\<close>

record GitHubAppClient =
  axios :: AxiosInstance
  githubInstallationId :: InstallationId

text \<open>\<open>appAuthenticationHeaders\<close> (lines 77 to 84).\<close>

definition appAuthenticationHeaders ::
  "('h, 'b) externals \<Rightarrow> GitHubAppClient \<Rightarrow> 'h \<Rightarrow> (string + (string \<times> string) list) \<times> 'h" where
  "appAuthenticationHeaders ext this h =
     (case getAppToken ext h (githubInstallationId this) of
        (Inl e, h') \<Rightarrow> (Inl e, h')
      | (Inr appToken, h') \<Rightarrow>
          (Inr [(''Accept'', ''application/vnd.github.machine-man-preview+json''),
                (''Authorization'', ''Bearer '' @ token appToken)], h'))"

text \<open>
  The function registered last in the constructor (lines 48 to 56):
  \<open>{...config, headers: {...config.headers, ...this.appAuthenticationHeaders()}}\<close>.
\<close>

definition authenticate ::
  "('h, 'b) externals \<Rightarrow> GitHubAppClient \<Rightarrow> AxiosRequestConfig \<Rightarrow> 'h \<Rightarrow>
   (request_error + AxiosRequestConfig) \<times> 'h" where
  "authenticate ext this config h =
     (case appAuthenticationHeaders ext this h of
        (Inl e, h') \<Rightarrow> (Inl (AuthenticationFailure e), h')
      | (Inr authentication, h') \<Rightarrow>
          (Inr (config\<lparr>headers :=
                  Some (spreadHeaders (case headers config of None \<Rightarrow> [] | Some hs \<Rightarrow> hs)
                          authentication)\<rparr>), h'))"

text \<open>
  The constructor (lines 22 to 59), with the registrations in the order the source makes
  them. \<open>metricName\<close> is \<open>metricHttpRequest.github\<close> (config/metric-names).
\<close>

definition GitHubAppClient_constructor :: "string \<Rightarrow> InstallationId \<Rightarrow> GitHubAppClient" where
  "GitHubAppClient_constructor metricName installation =
     (let a0 = axios_create (emptyConfig\<lparr>baseURL := Some (githubBaseUrl installation),
                                          clarifyTimeoutError := Some True\<rparr>);
          a1 = request_use a0 SetRequestStartTime;
          a2 = request_use a1 SetRequestTimeout;
          a3 = request_use a2 UrlParamsMiddleware;
          a4 = response_use a3 None (Some HandleFailedRequest);
          a5 = response_use a4 (Some (InstrumentRequest metricName))
                 (Some (InstrumentFailedRequest metricName));
          a6 = request_use a5 AppAuthentication
      in \<lparr>axios = a6, githubInstallationId = installation\<rparr>)"

subsection \<open>The transport library's request\<close>

text \<open>
  \<open>Axios.prototype.request\<close> builds one promise chain: every request interceptor is put in
  front of the chain (\<open>unshift\<close>), so the one registered last runs first; then comes the
  dispatch to the network; then every response interceptor is appended (\<open>push\<close>), so they
  run in the order of registration. A rejection skips the handlers for fulfilment; the
  request interceptors here have no handler for rejection, and a rejected request is not
  dispatched. The request configuration is the instance's defaults overridden by the
  call's; the headers the library adds of its own are left out.
\<close>

definition runRequestInterceptor ::
  "('h, 'b) externals \<Rightarrow> GitHubAppClient \<Rightarrow> request_interceptor \<Rightarrow> AxiosRequestConfig \<Rightarrow> 'h \<Rightarrow>
   (request_error + AxiosRequestConfig) \<times> 'h" where
  "runRequestInterceptor ext this interceptor config h =
     (case interceptor of
        SetRequestStartTime \<Rightarrow> (Inr (setRequestStartTime (now ext) config), h)
      | SetRequestTimeout \<Rightarrow> (Inr (setRequestTimeout (requestTimeout ext) config), h)
      | UrlParamsMiddleware \<Rightarrow> (Inr (urlParamsMiddleware config), h)
      | AppAuthentication \<Rightarrow> authenticate ext this config h)"

fun runRequestChain ::
  "('h, 'b) externals \<Rightarrow> GitHubAppClient \<Rightarrow> request_interceptor list \<Rightarrow>
   request_error + AxiosRequestConfig \<Rightarrow> 'h state \<Rightarrow>
   (request_error + AxiosRequestConfig) \<times> 'h state" where
  "runRequestChain ext this [] promise s = (promise, s)"
| "runRequestChain ext this (interceptor # chain) promise s =
     (case promise of
        Inl e \<Rightarrow> runRequestChain ext this chain (Inl e) s
      | Inr config \<Rightarrow>
          (case runRequestInterceptor ext this interceptor config (holder s) of
             (promise', h') \<Rightarrow>
               runRequestChain ext this chain promise'
                 (s\<lparr>holder := h', trace := trace s @ [RequestInterceptor interceptor]\<rparr>)))"

definition runFulfilled ::
  "fulfilled_handler \<Rightarrow> 'b AxiosResponse \<Rightarrow> request_error + 'b AxiosResponse" where
  "runFulfilled handler response =
     (case handler of InstrumentRequest metricName \<Rightarrow> instrumentRequest metricName response)"

definition runRejected ::
  "rejected_handler \<Rightarrow> request_error \<Rightarrow> request_error + 'b AxiosResponse" where
  "runRejected handler err =
     (case handler of
        HandleFailedRequest \<Rightarrow> handleFailedRequest err
      | InstrumentFailedRequest metricName \<Rightarrow> instrumentFailedRequest metricName err)"

fun runResponseChain ::
  "(fulfilled_handler option \<times> rejected_handler option) list \<Rightarrow>
   request_error + 'b AxiosResponse \<Rightarrow> event list \<Rightarrow>
   (request_error + 'b AxiosResponse) \<times> event list" where
  "runResponseChain [] promise events = (promise, events)"
| "runResponseChain ((onFulfilled, onRejected) # chain) promise events =
     (case promise of
        Inr response \<Rightarrow>
          (case onFulfilled of
             None \<Rightarrow> runResponseChain chain promise events
           | Some handler \<Rightarrow>
               runResponseChain chain (runFulfilled handler response)
                 (events @ [ResponseFulfilled handler]))
      | Inl err \<Rightarrow>
          (case onRejected of
             None \<Rightarrow> runResponseChain chain promise events
           | Some handler \<Rightarrow>
               runResponseChain chain (runRejected handler err)
                 (events @ [ResponseRejected handler])))"

definition dispatchRequest ::
  "('h, 'b) externals \<Rightarrow> request_error + AxiosRequestConfig \<Rightarrow> event list \<Rightarrow>
   (request_error + 'b AxiosResponse) \<times> event list" where
  "dispatchRequest ext promise events =
     (case promise of
        Inl e \<Rightarrow> (Inl e, events)
      | Inr config \<Rightarrow>
          (case adapter ext config of
             Inl f \<Rightarrow> (Inl (TransportFailure f), events @ [DispatchRequest config])
           | Inr response \<Rightarrow> (Inr response, events @ [DispatchRequest config])))"

definition axios_request ::
  "('h, 'b) externals \<Rightarrow> GitHubAppClient \<Rightarrow> AxiosRequestConfig \<Rightarrow> 'h state \<Rightarrow>
   (request_error + 'b AxiosResponse) \<times> 'h state" where
  "axios_request ext this config s =
     (case runRequestChain ext this (rev (requestInterceptors (axios this)))
             (Inr (spread (defaults (axios this)) config)) s of
        (requested, s') \<Rightarrow>
          (case dispatchRequest ext requested (trace s') of
             (dispatched, events) \<Rightarrow>
               (case runResponseChain (responseInterceptors (axios this)) dispatched events of
                  (settled, events') \<Rightarrow> (settled, s'\<lparr>trace := events'\<rparr>))))"

text \<open>\<open>this.axios.get(url, config)\<close>.\<close>

definition axios_get ::
  "('h, 'b) externals \<Rightarrow> GitHubAppClient \<Rightarrow> string \<Rightarrow> AxiosRequestConfig \<Rightarrow> 'h state \<Rightarrow>
   (request_error + 'b AxiosResponse) \<times> 'h state" where
  "axios_get ext this path config s =
     axios_request ext this (config\<lparr>method := Some ''get'', url := Some path\<rparr>) s"

subsection \<open>The endpoints\<close>

text \<open>\<open>getUserMembershipForOrg\<close> (lines 61 to 68).\<close>

definition getUserMembershipForOrg ::
  "('h, 'b) externals \<Rightarrow> GitHubAppClient \<Rightarrow> string \<Rightarrow> string \<Rightarrow> 'h state \<Rightarrow>
   (request_error + 'b AxiosResponse) \<times> 'h state" where
  "getUserMembershipForOrg ext this username org s =
     axios_get ext this ''/orgs/{org}/memberships/{username}''
       (emptyConfig\<lparr>urlParams := Some [(''username'', username), (''org'', org)]\<rparr>) s"

text \<open>\<open>getApp\<close> (lines 70 to 72).\<close>

definition getApp ::
  "('h, 'b) externals \<Rightarrow> GitHubAppClient \<Rightarrow> 'h state \<Rightarrow>
   (request_error + 'b AxiosResponse) \<times> 'h state" where
  "getApp ext this s = axios_get ext this ''/app'' emptyConfig s"

text \<open>
  \<open>getInstallation\<close> (lines 89 to 97); the installation id is a number, written into the
  path in decimal.
\<close>

definition getInstallation ::
  "('h, 'b) externals \<Rightarrow> GitHubAppClient \<Rightarrow> nat \<Rightarrow> 'h state \<Rightarrow>
   (request_error + 'b AxiosResponse) \<times> 'h state" where
  "getInstallation ext this installationId s =
     axios_get ext this ''/installations/{installationId}''
       (emptyConfig\<lparr>urlParams := Some [(''installationId'', toString installationId)]\<rparr>) s"

text \<open>\<open>getInstallations\<close> (lines 99 to 101).\<close>

definition getInstallations ::
  "('h, 'b) externals \<Rightarrow> GitHubAppClient \<Rightarrow> 'h state \<Rightarrow>
   (request_error + 'b AxiosResponse) \<times> 'h state" where
  "getInstallations ext this s = axios_get ext this ''/app/installations'' emptyConfig s"

text \<open>The four public methods as one call, and what a trace says was sent.\<close>

datatype api_call =
    GetUserMembershipForOrg string string
  | GetApp
  | GetInstallation nat
  | GetInstallations

definition perform ::
  "('h, 'b) externals \<Rightarrow> GitHubAppClient \<Rightarrow> api_call \<Rightarrow> 'h state \<Rightarrow>
   (request_error + 'b AxiosResponse) \<times> 'h state" where
  "perform ext this call s =
     (case call of
        GetUserMembershipForOrg username org \<Rightarrow> getUserMembershipForOrg ext this username org s
      | GetApp \<Rightarrow> getApp ext this s
      | GetInstallation installationId \<Rightarrow> getInstallation ext this installationId s
      | GetInstallations \<Rightarrow> getInstallations ext this s)"

fun sent :: "event list \<Rightarrow> AxiosRequestConfig list" where
  "sent [] = []"
| "sent (DispatchRequest config # events) = config # sent events"
| "sent (e # events) = sent events"

definition header :: "string \<Rightarrow> AxiosRequestConfig \<Rightarrow> string option" where
  "header name config = (case headers config of None \<Rightarrow> None | Some hs \<Rightarrow> map_of hs name)"

section \<open>Example inputs\<close>

definition otherError :: GraphQLError where
  "otherError = \<lparr>message = ''Resource not accessible'', type = Some ''FORBIDDEN''\<rparr>"
definition untypedError :: GraphQLError where
  "untypedError = \<lparr>message = ''Something went wrong'', type = None\<rparr>"
definition lowerCaseError :: GraphQLError where
  "lowerCaseError = \<lparr>message = ''slow down'', type = Some ''rate_limited''\<rparr>"
definition rateLimitError :: GraphQLError where
  "rateLimitError = \<lparr>message = ''API rate limit exceeded'', type = Some ''RATE_LIMITED''\<rparr>"

definition responseWith :: "GraphQLError list option \<Rightarrow> unit GraphQlResponse" where
  "responseWith es =
     \<lparr>status = 200, AxiosResponse.headers = [], body = Some \<lparr>data = None, errors = es\<rparr>\<rparr>"

definition responseWithData :: "GraphQLError list option \<Rightarrow> unit GraphQlResponse" where
  "responseWithData es =
     \<lparr>status = 200, AxiosResponse.headers = [], body = Some \<lparr>data = Some (), errors = es\<rparr>\<rparr>"

definition responseWithoutBody :: "unit GraphQlResponse" where
  "responseWithoutBody = \<lparr>status = 200, AxiosResponse.headers = [], body = None\<rparr>"

definition postReturning ::
  "unit GraphQlResponse \<Rightarrow> string \<Rightarrow> unit GraphQlRequest \<Rightarrow> unit \<Rightarrow>
   unit + unit GraphQlResponse" where
  "postReturning response endpoint payload config = Inr response"

text \<open>
  What the platform's URL constructor answers on the URLs of the examples; as a value for
  \<open>newURL\<close> it answers \<open>None\<close> on every other string.
\<close>

definition platformURLs :: "(string \<times> URL) list" where
  "platformURLs =
     [(''http://ghe.example.com/api/v3'',
       \<lparr>protocol = ''http:'', URL.hostname = ''ghe.example.com'', port = []\<rparr>),
      (''https://10.0.0.1/api/v3'',
       \<lparr>protocol = ''https:'', URL.hostname = ''10.0.0.1'', port = []\<rparr>),
      (''https://github.internal.atlassian.com/api/v3'',
       \<lparr>protocol = ''https:'', URL.hostname = ''github.internal.atlassian.com'', port = []\<rparr>),
      (''https://api.atlassian.com:8443/api/v3'',
       \<lparr>protocol = ''https:'', URL.hostname = ''api.atlassian.com'', port = ''8443''\<rparr>)]"

definition exampleURL :: URL_constructor where
  "exampleURL input = map_of platformURLs input"

definition enterpriseConfig :: GitHubConfig where
  "enterpriseConfig =
     \<lparr>GitHubConfig.hostname = ''http://ghe.example.com'', baseUrl = ''http://ghe.example.com'',
      apiUrl = ''http://ghe.example.com/api/v3'',
      graphqlUrl = ''http://ghe.example.com/api/graphql'', proxyBaseUrl = None\<rparr>"

definition addressConfig :: GitHubConfig where
  "addressConfig =
     \<lparr>GitHubConfig.hostname = ''https://10.0.0.1'', baseUrl = ''https://10.0.0.1'',
      apiUrl = ''https://10.0.0.1/api/v3'',
      graphqlUrl = ''https://10.0.0.1/api/graphql'', proxyBaseUrl = None\<rparr>"

definition trustedConfig :: GitHubConfig where
  "trustedConfig =
     \<lparr>GitHubConfig.hostname = ''https://github.internal.atlassian.com'',
      baseUrl = ''https://github.internal.atlassian.com'',
      apiUrl = ''https://github.internal.atlassian.com/api/v3'',
      graphqlUrl = ''https://github.internal.atlassian.com/api/graphql'', proxyBaseUrl = None\<rparr>"

definition trustedPortConfig :: GitHubConfig where
  "trustedPortConfig =
     \<lparr>GitHubConfig.hostname = ''https://api.atlassian.com:8443'',
      baseUrl = ''https://api.atlassian.com:8443'',
      apiUrl = ''https://api.atlassian.com:8443/api/v3'',
      graphqlUrl = ''https://api.atlassian.com:8443/api/graphql'', proxyBaseUrl = None\<rparr>"

definition processProxy :: envVars where
  "processProxy = \<lparr>PROXY = Some ''http://proxy.internal:3128''\<rparr>"

definition noProcessProxy :: envVars where
  "noProcessProxy = \<lparr>PROXY = None\<rparr>"

definition emptyProcessProxy :: envVars where
  "emptyProcessProxy = \<lparr>PROXY = Some []\<rparr>"

definition explicitProxyConfig :: GitHubConfig where
  "explicitProxyConfig = trustedConfig\<lparr>proxyBaseUrl := Some ''http://egress.internal:8080''\<rparr>"

text \<open>
  A Token Provider whose state is the token it hands out, a network that answers every
  request, and one on which every request times out.
\<close>

definition tokenHolder :: "(string, unit) externals" where
  "tokenHolder =
     \<lparr>getAppToken = (\<lambda>h installation. (Inr \<lparr>token = h, expiresAt = 600\<rparr>, h)),
      adapter = (\<lambda>config. Inr \<lparr>status = 200, AxiosResponse.headers = [], body = ()\<rparr>),
      now = 1000, requestTimeout = 30000\<rparr>"

definition cloud :: InstallationId where
  "cloud = \<lparr>githubBaseUrl = ''https://api.github.com'', appId = 12345\<rparr>"

definition appClient :: GitHubAppClient where
  "appClient = GitHubAppClient_constructor ''app.server.http.request.github'' cloud"

definition idle :: "string state" where
  "idle = \<lparr>holder = ''jwt-1'', trace = []\<rparr>"

definition unreachable :: "(string, unit) externals" where
  "unreachable = tokenHolder\<lparr>adapter := (\<lambda>config. Inl Timeout)\<rparr>"

section \<open>The GraphQL call: properties\<close>

text \<open>\<open>toString\<close> writes the decimal numeral of its argument.\<close>

lemma parseInt_snoc: "parseInt (ds @ [d]) = 10 * parseInt ds + (of_char d - 48)"
  by (simp add: parseInt_def)

lemma digit_value:
  assumes "k < 10"
  shows "of_char (digit k) - 48 = k" and "isDigit (digit k)"
proof -
  from assms consider "k = 0" | "k = 1" | "k = 2" | "k = 3" | "k = 4" | "k = 5" | "k = 6"
    | "k = 7" | "k = 8" | "k = 9"
    by atomize_elim arith
  then have "of_char (digit k) - 48 = k \<and> isDigit (digit k)"
    by cases (simp_all add: digit_def isDigit_def)
  then show "of_char (digit k) - 48 = k" and "isDigit (digit k)"
    by simp_all
qed

lemma toString_decimal: "parseInt (toString n) = n \<and> list_all isDigit (toString n)"
proof (induction n rule: toString.induct)
  case (1 n)
  show ?case
  proof (cases "n < 10")
    case True
    then show ?thesis
      using digit_value [of n] by (simp add: toString.simps [of n] parseInt_def)
  next
    case False
    with 1 have ih: "parseInt (toString (n div 10)) = n div 10"
      "list_all isDigit (toString (n div 10))"
      by simp_all
    have "n mod 10 < 10" by simp
    from digit_value [OF this] ih False show ?thesis
      by (simp add: toString.simps [of n] parseInt_snoc)
  qed
qed

lemma toString_leading_digit: "toString n \<noteq> [] \<and> (0 < n \<longrightarrow> hd (toString n) \<noteq> CHR ''0'')"
proof (induction n rule: toString.induct)
  case (1 n)
  show ?case
  proof (cases "n < 10")
    case True
    then have single: "toString n = [digit n]"
      by (simp add: toString.simps [of n])
    from True consider "n = 0" | "n = 1" | "n = 2" | "n = 3" | "n = 4" | "n = 5" | "n = 6"
      | "n = 7" | "n = 8" | "n = 9"
      by atomize_elim arith
    then show ?thesis
      unfolding single by cases (simp_all add: digit_def)
  next
    case False
    then have "0 < n div 10" by simp
    with 1 False have "toString (n div 10) \<noteq> []" "hd (toString (n div 10)) \<noteq> CHR ''0''"
      by simp_all
    with False show ?thesis
      by (simp add: toString.simps [of n])
  qed
qed

lemma toString_numeral: "decimalNumeral (toString n) n"
proof (cases "n = 0")
  case True
  then show ?thesis
    by (simp add: decimalNumeral_def toString.simps [of 0] digit_def isDigit_def parseInt_def)
next
  case False
  with toString_leading_digit [of n] toString_decimal [of n] show ?thesis
    by (simp add: decimalNumeral_def)
qed

lemma isDigit_number:
  assumes "isDigit d"
  shows "of_char d - 48 < (10::nat)" and "digit (of_char d - 48) = d"
    and "d \<noteq> CHR ''0'' \<Longrightarrow> 0 < (of_char d - 48 :: nat)"
  using assms by (auto simp: isDigit_def digit_def)

lemma parseInt_from: "foldl (\<lambda>n d. 10 * n + (of_char d - 48)) a ds = a * 10 ^ length ds + parseInt ds"
proof (induction ds arbitrary: a)
  case Nil
  show ?case by (simp add: parseInt_def)
next
  case (Cons d ds)
  have "foldl (\<lambda>n d. 10 * n + (of_char d - 48)) a (d # ds) =
        (10 * a + (of_char d - 48)) * 10 ^ length ds + parseInt ds"
    using Cons.IH [of "10 * a + (of_char d - 48)"] by simp
  moreover have "parseInt (d # ds) = (of_char d - 48) * 10 ^ length ds + parseInt ds"
    using Cons.IH [of "of_char d - 48"] by (simp add: parseInt_def)
  ultimately show ?case by (simp add: algebra_simps)
qed

lemma parseInt_Cons: "parseInt (d # ds) = (of_char d - 48) * 10 ^ length ds + parseInt ds"
  using parseInt_from [of "of_char d - 48" ds] by (simp add: parseInt_def)

lemma decimalNumeral_unique: "decimalNumeral s n \<Longrightarrow> s = toString n"
proof (induction n arbitrary: s rule: toString.induct)
  case (1 n)
  from "1.prems" have s: "s \<noteq> []" "list_all isDigit s" "length s = 1 \<or> hd s \<noteq> CHR ''0''"
    "parseInt s = n"
    by (simp_all add: decimalNumeral_def)
  from s(1) obtain t d where td: "s = t @ [d]"
    by (cases s rule: rev_cases) auto
  with s(2) have d: "isDigit d" and t: "list_all isDigit t" by simp_all
  from s(4) td have total: "10 * parseInt t + (of_char d - 48) = n"
    by (simp add: parseInt_snoc)
  with isDigit_number(1) [OF d] have parts: "parseInt t = n div 10" "of_char d - 48 = n mod 10"
    by auto
  have lead: "hd t \<noteq> CHR ''0''" if "t \<noteq> []"
    using that s(3) td by (cases t) auto
  show ?case
  proof (cases "n < 10")
    case True
    have "t = []"
    proof (rule ccontr)
      assume "t \<noteq> []"
      then obtain c cs where c: "t = c # cs" by (cases t) auto
      with lead t have "0 < (of_char c - 48 :: nat)"
        using isDigit_number(3) [of c] by simp
      then have "0 < parseInt t"
        unfolding c parseInt_Cons by simp
      with parts(1) True show False by simp
    qed
    with td parts(2) isDigit_number(2) [OF d] True show ?thesis
      by (simp add: toString.simps [of n])
  next
    case False
    then have "0 < n div 10" by simp
    with parts(1) have nonempty: "t \<noteq> []"
      by (auto simp: parseInt_def)
    with lead t parts(1) have "decimalNumeral t (n div 10)"
      by (simp add: decimalNumeral_def)
    with "1.IH" False have "t = toString (n div 10)" by simp
    with td parts(2) isDigit_number(2) [OF d] False show ?thesis
      by (simp add: toString.simps [of n])
  qed
qed

lemma find_rate_limited:
  "(find (\<lambda>err. type err = Some ''RATE_LIMITED'') errs \<noteq> None) =
   (\<exists>err \<in> set errs. type err = Some ''RATE_LIMITED'')"
  by (auto simp: find_None_iff)

lemma graphql_transport_rejects:
  assumes "post endpoint \<lparr>query = q, variables = vars\<rparr> config = Inl e"
  shows "graphql post endpoint q config vars = ([], Inl (TransportRejection e))"
  using assms by (simp add: graphql_def)

lemma graphql_without_errors:
  assumes "post endpoint \<lparr>query = q, variables = vars\<rparr> config = Inr response"
    and "graphqlErrors response = None \<or> graphqlErrors response = Some []"
  shows "graphql post endpoint q config vars = ([], Inr response)"
  using assms by (auto simp: graphql_def)

lemma graphql_with_errors:
  assumes "post endpoint \<lparr>query = q, variables = vars\<rparr> config = Inr response"
    and "graphqlErrors response = Some (first # others)"
  shows "snd (graphql post endpoint q config vars) =
         (if \<exists>err \<in> set (first # others). type err = Some ''RATE_LIMITED''
          then Inl (RateLimitingError response)
          else Inl (GithubClientGraphQLError
                      (message first @
                       (if others = [] then []
                        else '' and '' @ toString (length others) @ '' more errors''))
                      (first # others)))"
proof (cases "find (\<lambda>err. type err = Some ''RATE_LIMITED'') (first # others)")
  case None
  then have "\<not> (\<exists>err \<in> set (first # others). type err = Some ''RATE_LIMITED'')"
    using find_rate_limited [of "first # others"] by simp
  with None assms show ?thesis by (simp add: graphql_def)
next
  case (Some hit)
  then have "\<exists>err \<in> set (first # others). type err = Some ''RATE_LIMITED''"
    using find_rate_limited [of "first # others"] by simp
  with Some assms show ?thesis by (simp add: graphql_def)
qed

lemma graphqlErrors_of_body:
  "body response = Some b \<Longrightarrow> graphqlErrors response = errors b"
  "body response = None \<Longrightarrow> graphqlErrors response = None"
  by (simp_all add: graphqlErrors_def)

text \<open>
  Claim C1. When the transport call succeeds and the body of the response has an errors
  sequence with an entry whose type is the rate-limit marker, \<open>graphql\<close> rejects with
  \<open>RateLimitingError\<close> carrying the response itself, whatever the body has beside the errors,
  however many other entries there are and wherever the entry stands; the rejection is never
  the aggregated \<open>GithubClientGraphQLError\<close>.
\<close>

theorem graphql_rate_limit_rejection:
  assumes "post endpoint \<lparr>query = q, variables = vars\<rparr> config = Inr response"
    and "body response = Some b"
    and "errors b = Some errs"
    and "err \<in> set errs"
    and "type err = Some ''RATE_LIMITED''"
  shows "snd (graphql post endpoint q config vars) = Inl (RateLimitingError response) \<and>
         (\<forall>msg es. snd (graphql post endpoint q config vars) \<noteq>
                    Inl (GithubClientGraphQLError msg es))"
proof -
  from assms(4) obtain first others where errs: "errs = first # others"
    by (cases errs) auto
  have read: "graphqlErrors response = Some (first # others)"
    using graphqlErrors_of_body(1) [OF assms(2)] assms(3) errs by simp
  have "\<exists>err \<in> set (first # others). type err = Some ''RATE_LIMITED''"
    using assms(4,5) errs by blast
  then have "snd (graphql post endpoint q config vars) = Inl (RateLimitingError response)"
    using graphql_with_errors [where post = post and endpoint = endpoint and q = q and vars = vars and config = config] assms(1) read by simp
  then show ?thesis by simp
qed

theorem graphql_rate_limit_rejection_witness:
  "body (responseWithData (Some [otherError, untypedError, rateLimitError])) =
     Some \<lparr>data = Some (), errors = Some [otherError, untypedError, rateLimitError]\<rparr> \<and>
   rateLimitError \<in> set [otherError, untypedError, rateLimitError] \<and>
   type rateLimitError = Some ''RATE_LIMITED'' \<and>
   snd (graphql (postReturning (responseWithData (Some [otherError, untypedError, rateLimitError])))
          ''https://api.github.com/graphql'' ''query { viewer { login } }'' () None)
   = Inl (RateLimitingError (responseWithData (Some [otherError, untypedError, rateLimitError])))"
proof -
  let ?r = "responseWithData (Some [otherError, untypedError, rateLimitError])"
  let ?b = "\<lparr>data = Some (), errors = Some [otherError, untypedError, rateLimitError]\<rparr>"
  have p: "postReturning ?r ''https://api.github.com/graphql''
             \<lparr>query = ''query { viewer { login } }'', variables = None\<rparr> () = Inr ?r"
    by (simp add: postReturning_def)
  have b: "body ?r = Some ?b"
    by (simp add: responseWithData_def)
  have e: "errors ?b = Some [otherError, untypedError, rateLimitError]" by simp
  have m: "rateLimitError \<in> set [otherError, untypedError, rateLimitError]" by simp
  have t: "type rateLimitError = Some ''RATE_LIMITED''" by (simp add: rateLimitError_def)
  from graphql_rate_limit_rejection
         [where post = "postReturning ?r" and endpoint = "''https://api.github.com/graphql''"
            and q = "''query { viewer { login } }''" and vars = None and config = "()",
          OF p b e m t]
  show ?thesis using b m t by blast
qed

text \<open>
  Claim C2. When the transport call succeeds and the body of the response has a non-empty
  errors sequence of \<open>n\<close> entries none of which has the rate-limit type, \<open>graphql\<close> rejects
  with \<open>GithubClientGraphQLError\<close> carrying the whole sequence. For \<open>n = 1\<close> its message is
  the first entry's message and nothing else; for \<open>n > 1\<close> it is the first entry's message
  followed by \<open>" and "\<close>, the decimal numeral of \<open>n - 1\<close> and \<open>" more errors"\<close>; for three
  entries, \<open>"<first error message> and 2 more errors"\<close>.
\<close>

theorem graphql_generic_rejection:
  assumes "post endpoint \<lparr>query = q, variables = vars\<rparr> config = Inr response"
    and "body response = Some b"
    and "errors b = Some (first # others)"
    and "\<forall>err \<in> set (first # others). type err \<noteq> Some ''RATE_LIMITED''"
  shows "(length (first # others) = 1 \<longrightarrow>
            snd (graphql post endpoint q config vars) =
              Inl (GithubClientGraphQLError (message first) (first # others))) \<and>
         (length (first # others) > 1 \<longrightarrow>
            (\<exists>count. decimalNumeral count (length (first # others) - 1)) \<and>
            (\<forall>count. decimalNumeral count (length (first # others) - 1) \<longrightarrow>
               snd (graphql post endpoint q config vars) =
                 Inl (GithubClientGraphQLError
                        (message first @ '' and '' @ count @ '' more errors'')
                        (first # others)))) \<and>
         (length (first # others) = 3 \<longrightarrow>
            snd (graphql post endpoint q config vars) =
              Inl (GithubClientGraphQLError (message first @ '' and 2 more errors'')
                     (first # others)))"
proof -
  have two: "toString 2 = ''2''" by (simp add: toString.simps digit_def)
  have read: "graphqlErrors response = Some (first # others)"
    using graphqlErrors_of_body(1) [OF assms(2)] assms(3) by simp
  have r: "snd (graphql post endpoint q config vars) =
           Inl (GithubClientGraphQLError
                  (message first @
                       (if others = [] then []
                        else '' and '' @ toString (length others) @ '' more errors''))
                  (first # others))"
    using graphql_with_errors [where post = post and endpoint = endpoint and q = q and vars = vars and config = config] assms(1,4) read by simp
  have one: "snd (graphql post endpoint q config vars) =
              Inl (GithubClientGraphQLError (message first) (first # others))"
    if "length (first # others) = 1"
    using that r by simp
  have more: "(\<exists>count. decimalNumeral count (length (first # others) - 1)) \<and>
            (\<forall>count. decimalNumeral count (length (first # others) - 1) \<longrightarrow>
               snd (graphql post endpoint q config vars) =
                 Inl (GithubClientGraphQLError
                        (message first @ '' and '' @ count @ '' more errors'')
                        (first # others)))"
    if "length (first # others) > 1"
  proof (intro conjI allI impI)
    show "\<exists>count. decimalNumeral count (length (first # others) - 1)"
      using toString_numeral [of "length others"] by auto
  next
    fix count
    assume "decimalNumeral count (length (first # others) - 1)"
    then have "count = toString (length others)"
      using decimalNumeral_unique [of count "length others"] by simp
    moreover from that have "others \<noteq> []" by auto
    ultimately show "snd (graphql post endpoint q config vars) =
                 Inl (GithubClientGraphQLError
                        (message first @ '' and '' @ count @ '' more errors'')
                        (first # others))"
      using r by simp
  qed
  have three: "snd (graphql post endpoint q config vars) =
              Inl (GithubClientGraphQLError (message first @ '' and 2 more errors'')
                     (first # others))"
    if "length (first # others) = 3"
  proof -
    from that have "length others = 2" "others \<noteq> []" by auto
    with r two show ?thesis by simp
  qed
  from one more three show ?thesis by blast
qed

theorem graphql_generic_rejection_witness:
  "type otherError \<noteq> Some ''RATE_LIMITED'' \<and> type untypedError \<noteq> Some ''RATE_LIMITED'' \<and>
   type lowerCaseError \<noteq> Some ''RATE_LIMITED'' \<and>
   snd (graphql (postReturning (responseWithData (Some [otherError, untypedError, lowerCaseError])))
          ''https://api.github.com/graphql'' ''query { viewer { login } }'' () None)
   = Inl (GithubClientGraphQLError ''Resource not accessible and 2 more errors''
            [otherError, untypedError, lowerCaseError]) \<and>
   snd (graphql (postReturning (responseWith (Some [untypedError])))
          ''https://api.github.com/graphql'' ''query { viewer { login } }'' () None)
   = Inl (GithubClientGraphQLError ''Something went wrong'' [untypedError]) \<and>
   decimalNumeral ''11'' 11 \<and>
   snd (graphql (postReturning (responseWith (Some (replicate 12 untypedError))))
          ''https://api.github.com/graphql'' ''query { viewer { login } }'' () None)
   = Inl (GithubClientGraphQLError ''Something went wrong and 11 more errors''
            (replicate 12 untypedError))"
proof -
  let ?u = "''https://api.github.com/graphql''" and ?q = "''query { viewer { login } }''"
  let ?r3 = "responseWithData (Some [otherError, untypedError, lowerCaseError])"
  let ?r1 = "responseWith (Some [untypedError])"
  let ?r12 = "responseWith (Some (replicate 12 untypedError))"
  have p: "postReturning r ?u \<lparr>query = ?q, variables = None\<rparr> () = Inr r" for r
    by (simp add: postReturning_def)
  have b3: "body ?r3 =
              Some \<lparr>data = Some (), errors = Some [otherError, untypedError, lowerCaseError]\<rparr>"
    by (simp add: responseWithData_def)
  have b: "body (responseWith es) = Some \<lparr>data = None, errors = es\<rparr>" for es
    by (simp add: responseWith_def)
  have e3: "errors \<lparr>data = Some (), errors = Some [otherError, untypedError, lowerCaseError]\<rparr> =
              Some (otherError # [untypedError, lowerCaseError])"
    and e1: "errors \<lparr>data = None :: unit option, errors = Some [untypedError]\<rparr> =
               Some (untypedError # [])"
    and e12: "errors \<lparr>data = None :: unit option, errors = Some (replicate 12 untypedError)\<rparr> =
                Some (untypedError # replicate 11 untypedError)"
    by (simp_all add: numeral_eq_Suc)
  have n3: "\<forall>err \<in> set (otherError # [untypedError, lowerCaseError]).
              type err \<noteq> Some ''RATE_LIMITED''"
    and n1: "\<forall>err \<in> set (untypedError # []). type err \<noteq> Some ''RATE_LIMITED''"
    and n12: "\<forall>err \<in> set (untypedError # replicate 11 untypedError).
                type err \<noteq> Some ''RATE_LIMITED''"
    by (simp_all add: otherError_def untypedError_def lowerCaseError_def)
  note t3 = graphql_generic_rejection
         [where post = "postReturning ?r3" and endpoint = ?u and q = ?q and vars = None
            and config = "()", OF p b3 e3 n3]
  note t1 = graphql_generic_rejection
         [where post = "postReturning ?r1" and endpoint = ?u and q = ?q and vars = None
            and config = "()", OF p b e1 n1]
  note t12 = graphql_generic_rejection
         [where post = "postReturning ?r12" and endpoint = ?u and q = ?q and vars = None
            and config = "()", OF p b e12 n12]
  from t3 [THEN conjunct2, THEN conjunct2]
  have a: "snd (graphql (postReturning ?r3) ?u ?q () None) =
           Inl (GithubClientGraphQLError (message otherError @ '' and 2 more errors'')
                  [otherError, untypedError, lowerCaseError])"
    by simp
  from t1 [THEN conjunct1]
  have c: "snd (graphql (postReturning ?r1) ?u ?q () None) =
           Inl (GithubClientGraphQLError (message untypedError) [untypedError])"
    by simp
  have eleven: "decimalNumeral ''11'' 11"
    by (simp add: decimalNumeral_def isDigit_def parseInt_def)
  from t12 [THEN conjunct2, THEN conjunct1] eleven
  have d: "snd (graphql (postReturning ?r12) ?u ?q () None)
      = Inl (GithubClientGraphQLError (message untypedError @ '' and '' @ ''11'' @ '' more errors'')
               (replicate 12 untypedError))"
    by (simp add: numeral_eq_Suc)
  show ?thesis
    using a c d n3 eleven by (simp add: otherError_def untypedError_def)
qed

text \<open>
  Claim C3. When the errors sequence is absent (no body, or a body without \<open>errors\<close>) or
  empty, \<open>graphql\<close> resolves with the transport response as it came and logs nothing,
  whatever the \<open>data\<close> field is, also when it is absent.
\<close>

theorem graphql_no_errors_resolves:
  assumes "post endpoint \<lparr>query = q, variables = vars\<rparr> config = Inr response"
    and "body response = None \<or>
         (\<exists>b. body response = Some b \<and> (errors b = None \<or> errors b = Some []))"
  shows "graphql post endpoint q config vars = ([], Inr response)"
proof -
  from assms(2) have "graphqlErrors response = None \<or> graphqlErrors response = Some []"
    by (auto simp: graphqlErrors_def)
  with assms(1) graphql_without_errors [where post = post and endpoint = endpoint and q = q and vars = vars and config = config] show ?thesis by blast
qed

theorem graphql_no_errors_resolves_witness:
  "graphql (postReturning responseWithoutBody)
     ''https://api.github.com/graphql'' ''query { viewer { login } }'' () None
   = ([], Inr responseWithoutBody) \<and>
   graphql (postReturning (responseWith None))
     ''https://api.github.com/graphql'' ''query { viewer { login } }'' () None
   = ([], Inr (responseWith None)) \<and>
   graphql (postReturning (responseWith (Some [])))
     ''https://api.github.com/graphql'' ''query { viewer { login } }'' () None
   = ([], Inr (responseWith (Some [])))"
proof -
  let ?u = "''https://api.github.com/graphql''" and ?q = "''query { viewer { login } }''"
  let ?r0 = "responseWithoutBody"
  have p: "\<And>r. postReturning r ?u \<lparr>query = ?q, variables = None\<rparr> () = Inr r"
    by (simp add: postReturning_def)
  have b0: "body ?r0 = None \<or>
            (\<exists>b. body ?r0 = Some b \<and> (errors b = None \<or> errors b = Some []))"
    by (simp add: responseWithoutBody_def)
  have b1: "body (responseWith None) = None \<or>
            (\<exists>b. body (responseWith None) = Some b \<and> (errors b = None \<or> errors b = Some []))"
    by (simp add: responseWith_def)
  have b2: "body (responseWith (Some [])) = None \<or>
            (\<exists>b. body (responseWith (Some [])) = Some b \<and>
                 (errors b = None \<or> errors b = Some []))"
    by (simp add: responseWith_def)
  show ?thesis
    using graphql_no_errors_resolves
            [where post = "postReturning ?r0" and endpoint = ?u and q = ?q and vars = None
               and config = "()", OF p b0]
          graphql_no_errors_resolves
            [where post = "postReturning (responseWith None)" and endpoint = ?u and q = ?q
               and vars = None and config = "()", OF p b1]
          graphql_no_errors_resolves
            [where post = "postReturning (responseWith (Some []))" and endpoint = ?u
               and q = ?q and vars = None and config = "()", OF p b2]
    by simp
qed

text \<open>
  Claim C9. \<open>graphql\<close> rejects with \<open>RateLimitingError\<close> exactly when the transport call
  succeeded and some entry of the errors sequence in the body of the response has the type
  \<open>"RATE_LIMITED"\<close>; with a non-empty sequence where every type is something else (absent,
  another casing, another marker) the rejection is a \<open>GithubClientGraphQLError\<close> carrying the
  sequence.
\<close>

theorem graphql_rate_limited_iff:
  "((\<exists>r. snd (graphql post endpoint q config vars) = Inl (RateLimitingError r)) \<longleftrightarrow>
    (\<exists>response b errs.
        post endpoint \<lparr>query = q, variables = vars\<rparr> config = Inr response \<and>
        body response = Some b \<and> errors b = Some errs \<and>
        (\<exists>err \<in> set errs. type err = Some ''RATE_LIMITED''))) \<and>
   (\<forall>response b errs.
        post endpoint \<lparr>query = q, variables = vars\<rparr> config = Inr response \<and>
        body response = Some b \<and> errors b = Some errs \<and> errs \<noteq> [] \<and>
        (\<forall>err \<in> set errs. type err \<noteq> Some ''RATE_LIMITED'') \<longrightarrow>
        (\<exists>msg. snd (graphql post endpoint q config vars) =
                 Inl (GithubClientGraphQLError msg errs)))"
proof (intro conjI allI impI iffI)
  assume rl: "\<exists>r. snd (graphql post endpoint q config vars) = Inl (RateLimitingError r)"
  show "\<exists>response b errs.
        post endpoint \<lparr>query = q, variables = vars\<rparr> config = Inr response \<and>
        body response = Some b \<and> errors b = Some errs \<and>
        (\<exists>err \<in> set errs. type err = Some ''RATE_LIMITED'')"
  proof (cases "post endpoint \<lparr>query = q, variables = vars\<rparr> config")
    case (Inl e)
    from graphql_transport_rejects [where post = post and endpoint = endpoint and q = q and vars = vars and config = config] Inl rl show ?thesis by simp
  next
    case (Inr response)
    show ?thesis
    proof (cases "graphqlErrors response")
      case None
      with graphql_without_errors [where post = post and endpoint = endpoint and q = q and vars = vars and config = config] Inr rl show ?thesis by simp
    next
      case (Some errs)
      then obtain b where b: "body response = Some b" "errors b = Some errs"
        by (auto simp: graphqlErrors_def split: option.splits)
      show ?thesis
      proof (cases errs)
        case Nil
        with Some graphql_without_errors [where post = post and endpoint = endpoint and q = q and vars = vars and config = config] Inr rl show ?thesis by simp
      next
        case (Cons first others)
        from graphql_with_errors [where post = post and endpoint = endpoint and q = q and vars = vars and config = config] Inr Some Cons rl
        have "\<exists>err \<in> set (first # others). type err = Some ''RATE_LIMITED''"
          by (simp split: if_splits)
        with Inr b Cons show ?thesis by blast
      qed
    qed
  qed
next
  assume "\<exists>response b errs.
        post endpoint \<lparr>query = q, variables = vars\<rparr> config = Inr response \<and>
        body response = Some b \<and> errors b = Some errs \<and>
        (\<exists>err \<in> set errs. type err = Some ''RATE_LIMITED'')"
  then obtain response b errs
    where p: "post endpoint \<lparr>query = q, variables = vars\<rparr> config = Inr response"
      and b: "body response = Some b" "errors b = Some errs"
      and r: "\<exists>err \<in> set errs. type err = Some ''RATE_LIMITED''" by blast
  have e: "graphqlErrors response = Some errs"
    using graphqlErrors_of_body(1) [OF b(1)] b(2) by simp
  from r obtain first others where c: "errs = first # others" by (cases errs) auto
  from graphql_with_errors [where post = post and endpoint = endpoint and q = q and vars = vars and config = config] p e r c
  have "snd (graphql post endpoint q config vars) = Inl (RateLimitingError response)"
    by simp
  then show "\<exists>r. snd (graphql post endpoint q config vars) = Inl (RateLimitingError r)" by blast
next
  fix response b errs
  assume a: "post endpoint \<lparr>query = q, variables = vars\<rparr> config = Inr response \<and>
        body response = Some b \<and> errors b = Some errs \<and> errs \<noteq> [] \<and>
        (\<forall>err \<in> set errs. type err \<noteq> Some ''RATE_LIMITED'')"
  then obtain first others where c: "errs = first # others" by (cases errs) auto
  from a have p: "post endpoint \<lparr>query = q, variables = vars\<rparr> config = Inr response"
    and e: "graphqlErrors response = Some (first # others)"
    using graphqlErrors_of_body(1) [of response b] unfolding c by simp_all
  from graphql_with_errors [where post = post and endpoint = endpoint and q = q and vars = vars and config = config] p e a c
  show "\<exists>msg. snd (graphql post endpoint q config vars) =
                 Inl (GithubClientGraphQLError msg errs)"
    by simp
qed

theorem graphql_rate_limited_iff_witness:
  "type untypedError = None \<and> type lowerCaseError = Some ''rate_limited'' \<and>
   type otherError = Some ''FORBIDDEN'' \<and>
   (\<exists>msg. snd (graphql (postReturning (responseWithData (Some [untypedError, lowerCaseError, otherError])))
                 ''https://api.github.com/graphql'' ''query { viewer { login } }'' () None)
           = Inl (GithubClientGraphQLError msg [untypedError, lowerCaseError, otherError])) \<and>
   (\<nexists>r. snd (graphql (postReturning (responseWithData (Some [untypedError, lowerCaseError, otherError])))
                 ''https://api.github.com/graphql'' ''query { viewer { login } }'' () None)
           = Inl (RateLimitingError r)) \<and>
   (\<exists>r. snd (graphql (postReturning (responseWithData (Some [otherError, rateLimitError])))
                 ''https://api.github.com/graphql'' ''query { viewer { login } }'' () None)
           = Inl (RateLimitingError r))"
proof -
  let ?u = "''https://api.github.com/graphql''" and ?q = "''query { viewer { login } }''"
  let ?es = "[untypedError, lowerCaseError, otherError]"
  let ?r = "responseWithData (Some ?es)"
  let ?rl = "responseWithData (Some [otherError, rateLimitError])"
  have p: "postReturning r ?u \<lparr>query = ?q, variables = None\<rparr> () = Inr r" for r
    by (simp add: postReturning_def)
  have b: "body (responseWithData es) = Some \<lparr>data = Some (), errors = es\<rparr>" for es
    by (simp add: responseWithData_def)
  have n: "\<forall>err \<in> set ?es. type err \<noteq> Some ''RATE_LIMITED''"
    by (simp add: otherError_def untypedError_def lowerCaseError_def)
  have y: "\<exists>err \<in> set [otherError, rateLimitError]. type err = Some ''RATE_LIMITED''"
    by (simp add: rateLimitError_def)
  note t = graphql_rate_limited_iff
             [where post = "postReturning ?r" and endpoint = ?u and q = ?q and vars = None
                and config = "()"]
  note tl = graphql_rate_limited_iff
             [where post = "postReturning ?rl" and endpoint = ?u and q = ?q and vars = None
                and config = "()"]
  from t [THEN conjunct2, rule_format, of ?r "\<lparr>data = Some (), errors = Some ?es\<rparr>" ?es] p b n
  have g: "\<exists>msg. snd (graphql (postReturning ?r) ?u ?q () None) =
                 Inl (GithubClientGraphQLError msg ?es)"
    by simp
  then have ng: "\<nexists>r. snd (graphql (postReturning ?r) ?u ?q () None) = Inl (RateLimitingError r)"
    by auto
  have "\<exists>response b errs.
        postReturning ?rl ?u \<lparr>query = ?q, variables = None\<rparr> () = Inr response \<and>
        body response = Some b \<and> errors b = Some errs \<and>
        (\<exists>err \<in> set errs. type err = Some ''RATE_LIMITED'')"
    using p [of ?rl] b [of "Some [otherError, rateLimitError]"] y
    by (intro exI [of _ ?rl]
              exI [of _ "\<lparr>data = Some (), errors = Some [otherError, rateLimitError]\<rparr>"]
              exI [of _ "[otherError, rateLimitError]"]) simp
  with tl [THEN conjunct1]
  have yes: "\<exists>r. snd (graphql (postReturning ?rl) ?u ?q () None) = Inl (RateLimitingError r)"
    by blast
  from g ng yes show ?thesis
    by (simp add: otherError_def untypedError_def lowerCaseError_def)
qed

section \<open>Construction and proxy selection: properties\<close>

lemma constructor_with_proxyBaseUrl:
  assumes "proxyBaseUrl gitHubConfig = Some p" and "p \<noteq> []"
  shows "GitHubClient_constructor newURL env gitHubConfig =
         ([Info ''Using outbound proxy''],
          Inr \<lparr>restApiUrl = apiUrl gitHubConfig,
               graphqlUrl = GitHubConfig.graphqlUrl gitHubConfig,
               axios = axios_create
                         (emptyConfig\<lparr>baseURL := Some (apiUrl gitHubConfig),
                                       clarifyTimeoutError := Some True,
                                       httpAgent := Some (HttpProxyAgent p),
                                       httpsAgent := Some (HttpsProxyAgent p),
                                       proxy := Some False\<rparr>)\<rparr>)"
  using assms
  by (simp add: GitHubClient_constructor_def buildProxyConfig_def spread_def orElse_def
                emptyConfig_def)

lemma constructor_without_proxyBaseUrl:
  assumes "\<not> truthy (proxyBaseUrl gitHubConfig)"
    and "newURL (apiUrl gitHubConfig) = Some u"
  shows "GitHubClient_constructor newURL env gitHubConfig =
         ([],
          Inr \<lparr>restApiUrl = apiUrl gitHubConfig,
               graphqlUrl = GitHubConfig.graphqlUrl gitHubConfig,
               axios = axios_create
                         (emptyConfig\<lparr>baseURL := Some (apiUrl gitHubConfig),
                                       clarifyTimeoutError := Some True,
                                       httpsAgent :=
                                         (if endsWith (host u) ''atlassian.com'' then None
                                          else if truthy (PROXY env)
                                               then map_option HttpsProxyAgent (PROXY env)
                                               else None),
                                       proxy := Some False\<rparr>)\<rparr>)"
  using assms
  by (auto simp: GitHubClient_constructor_def getProxyConfig_def noProxyConfig_def
                 outboundProxyConfig_def spread_def orElse_def emptyConfig_def truthy_def
           split: option.splits)

lemma constructor_invalid_url:
  assumes "\<not> truthy (proxyBaseUrl gitHubConfig)"
    and "newURL (apiUrl gitHubConfig) = None"
  shows "GitHubClient_constructor newURL env gitHubConfig = ([], Inl (TypeError ''Invalid URL''))"
  using assms
  by (auto simp: GitHubClient_constructor_def getProxyConfig_def truthy_def
           split: option.splits)

text \<open>
  What the selection does, for every answer of the platform's parser: it goes by the URL's
  \<open>host\<close>, builds the HTTPS agent from a process-wide setting that is set and not empty, and
  attaches none when the setting is absent or empty. It logs nothing and has no access to
  the transport: its result is a function of the parsed URL and the setting alone.
\<close>

lemma proxy_selection_by_host:
  assumes "\<not> truthy (proxyBaseUrl gitHubConfig)"
    and "newURL (apiUrl gitHubConfig) = Some u"
  shows "\<exists>client. GitHubClient_constructor newURL env gitHubConfig = ([], Inr client) \<and>
           proxy (defaults (GitHubClient.axios client)) = Some False \<and>
           httpAgent (defaults (GitHubClient.axios client)) = None \<and>
           (endsWith (host u) ''atlassian.com'' \<longrightarrow>
              httpsAgent (defaults (GitHubClient.axios client)) = None) \<and>
           (\<not> endsWith (host u) ''atlassian.com'' \<longrightarrow>
              (\<forall>p. PROXY env = Some p \<and> p \<noteq> [] \<longrightarrow>
                 httpsAgent (defaults (GitHubClient.axios client)) = Some (HttpsProxyAgent p)) \<and>
              (PROXY env = None \<or> PROXY env = Some [] \<longrightarrow>
                 httpsAgent (defaults (GitHubClient.axios client)) = None))"
  unfolding constructor_without_proxyBaseUrl [where newURL = newURL, OF assms]
  by (auto simp: truthy_def emptyConfig_def axios_create_def)

text \<open>
  A URL whose hostname does not end with the trusted domain has a host that does not end
  with it either, its port being a string of digits.
\<close>

lemma endsWith_last:
  assumes "endsWith s suf" and "suf \<noteq> []"
  shows "s \<noteq> [] \<and> last s = last suf"
proof -
  from assms have "drop (length s - length suf) s = suf" by (simp add: endsWith_def)
  then have "s = take (length s - length suf) s @ suf"
    by (metis append_take_drop_id)
  with assms(2) show ?thesis
    by (metis Nil_is_append_conv last_appendR)
qed

lemma untrusted_hostname_untrusted_host:
  assumes "list_all isDigit (port u)"
    and "\<not> endsWith (URL.hostname u) ''atlassian.com''"
  shows "\<not> endsWith (host u) ''atlassian.com''"
proof (cases "port u = []")
  case True
  with assms(2) show ?thesis by (simp add: host_def)
next
  case False
  show ?thesis
  proof
    assume "endsWith (host u) ''atlassian.com''"
    from endsWith_last [OF this] False have "last (port u) = CHR ''m''"
      by (simp add: host_def)
    moreover from False assms(1) have "isDigit (last (port u))"
      by (metis last_in_set list_all_iff)
    ultimately show False by (simp add: isDigit_def)
  qed
qed

lemma exampleURL_enterprise:
  "exampleURL (apiUrl enterpriseConfig) =
   Some \<lparr>protocol = ''http:'', URL.hostname = ''ghe.example.com'', port = []\<rparr>"
  by (simp add: exampleURL_def platformURLs_def enterpriseConfig_def)

lemma exampleURL_address:
  "exampleURL (apiUrl addressConfig) =
   Some \<lparr>protocol = ''https:'', URL.hostname = ''10.0.0.1'', port = []\<rparr>"
  by (simp add: exampleURL_def platformURLs_def addressConfig_def)

lemma exampleURL_trusted:
  "exampleURL (apiUrl trustedConfig) =
   Some \<lparr>protocol = ''https:'', URL.hostname = ''github.internal.atlassian.com'', port = []\<rparr>"
  by (simp add: exampleURL_def platformURLs_def trustedConfig_def)

lemma exampleURL_trustedPort:
  "exampleURL (apiUrl trustedPortConfig) =
   Some \<lparr>protocol = ''https:'', URL.hostname = ''api.atlassian.com'', port = ''8443''\<rparr>"
  by (simp add: exampleURL_def platformURLs_def trustedPortConfig_def)

text \<open>
  Claim C4. For every \<open>GitHubConfig\<close> with \<open>proxyBaseUrl\<close> set, which the constructor tests
  as JavaScript does, a non-empty string, construction logs that the outbound proxy is used
  and builds a transport configuration with an HTTP proxy agent and an HTTPS proxy agent,
  both pointed at that URL, and with \<open>proxy: false\<close>; the target URL is not looked at,
  trusted or not or not even a URL, and neither is the process-wide proxy setting.
\<close>

theorem explicit_proxy_installs_both_agents:
  assumes "proxyBaseUrl gitHubConfig = Some p" and "p \<noteq> []"
  shows "\<exists>client. GitHubClient_constructor newURL env gitHubConfig =
                    ([Info ''Using outbound proxy''], Inr client) \<and>
           httpAgent (defaults (GitHubClient.axios client)) = Some (HttpProxyAgent p) \<and>
           httpsAgent (defaults (GitHubClient.axios client)) = Some (HttpsProxyAgent p) \<and>
           proxy (defaults (GitHubClient.axios client)) = Some False \<and>
           agentFor ''http:'' (defaults (GitHubClient.axios client)) = Some (HttpProxyAgent p) \<and>
           agentFor ''https:'' (defaults (GitHubClient.axios client)) = Some (HttpsProxyAgent p)"
  unfolding constructor_with_proxyBaseUrl [OF assms]
  by (simp add: agentFor_def axios_create_def)

theorem explicit_proxy_installs_both_agents_witness:
  "proxyBaseUrl explicitProxyConfig = Some ''http://egress.internal:8080'' \<and>
   (\<exists>client. GitHubClient_constructor exampleURL noProcessProxy explicitProxyConfig =
                ([Info ''Using outbound proxy''], Inr client) \<and>
      httpAgent (defaults (GitHubClient.axios client)) =
        Some (HttpProxyAgent ''http://egress.internal:8080'') \<and>
      httpsAgent (defaults (GitHubClient.axios client)) =
        Some (HttpsProxyAgent ''http://egress.internal:8080'') \<and>
      proxy (defaults (GitHubClient.axios client)) = Some False)"
proof -
  have p: "proxyBaseUrl explicitProxyConfig = Some ''http://egress.internal:8080''"
    by (simp add: explicitProxyConfig_def)
  have n: "''http://egress.internal:8080'' \<noteq> []" by simp
  from explicit_proxy_installs_both_agents
         [where newURL = exampleURL and env = noProcessProxy, OF p n] p
  show ?thesis by blast
qed

text \<open>
  Claim C5. Without \<open>proxyBaseUrl\<close>, a target whose hostname belongs to the trusted domain
  (ends with \<open>"atlassian.com"\<close>) is to get no proxy agent. The code tests the URL's \<open>host\<close>,
  which carries the port: for \<open>https://github.internal.atlassian.com/api/v3\<close> no agent is
  attached, as the claim says, but for \<open>https://api.atlassian.com:8443/api/v3\<close>, whose
  hostname \<open>api.atlassian.com\<close> is in the trusted domain, the host is
  \<open>api.atlassian.com:8443\<close> and the agent for the process-wide proxy is attached.
\<close>

theorem trusted_hostname_with_port_gets_proxy:
  "proxyBaseUrl trustedConfig = None \<and>
   map_option URL.hostname (exampleURL (apiUrl trustedConfig)) =
     Some ''github.internal.atlassian.com'' \<and>
   endsWith ''github.internal.atlassian.com'' ''atlassian.com'' \<and>
   GitHubClient_constructor exampleURL processProxy trustedConfig =
     ([], Inr \<lparr>restApiUrl = ''https://github.internal.atlassian.com/api/v3'',
               graphqlUrl = ''https://github.internal.atlassian.com/api/graphql'',
               axios = \<lparr>defaults =
                        \<lparr>baseURL = Some ''https://github.internal.atlassian.com/api/v3'',
                         clarifyTimeoutError = Some True, httpAgent = None, httpsAgent = None,
                         proxy = Some False, method = None, url = None, urlParams = None,
                         headers = None, timeout = None, requestStartTime = None\<rparr>,
                        requestInterceptors = [], responseInterceptors = []\<rparr>\<rparr>) \<and>
   proxyBaseUrl trustedPortConfig = None \<and>
   map_option URL.hostname (exampleURL (apiUrl trustedPortConfig)) = Some ''api.atlassian.com'' \<and>
   map_option host (exampleURL (apiUrl trustedPortConfig)) = Some ''api.atlassian.com:8443'' \<and>
   endsWith ''api.atlassian.com'' ''atlassian.com'' \<and>
   GitHubClient_constructor exampleURL processProxy trustedPortConfig =
     ([], Inr \<lparr>restApiUrl = ''https://api.atlassian.com:8443/api/v3'',
               graphqlUrl = ''https://api.atlassian.com:8443/api/graphql'',
               axios = \<lparr>defaults =
                        \<lparr>baseURL = Some ''https://api.atlassian.com:8443/api/v3'',
                         clarifyTimeoutError = Some True, httpAgent = None,
                         httpsAgent = Some (HttpsProxyAgent ''http://proxy.internal:3128''),
                         proxy = Some False, method = None, url = None, urlParams = None,
                         headers = None, timeout = None, requestStartTime = None\<rparr>,
                        requestInterceptors = [], responseInterceptors = []\<rparr>\<rparr>)"
proof -
  let ?t = "\<lparr>protocol = ''https:'', URL.hostname = ''github.internal.atlassian.com'', port = []\<rparr>"
  let ?u = "\<lparr>protocol = ''https:'', URL.hostname = ''api.atlassian.com'', port = ''8443''\<rparr>"
  have ft: "\<not> truthy (proxyBaseUrl trustedConfig)"
    and fu: "\<not> truthy (proxyBaseUrl trustedPortConfig)"
    by (simp_all add: trustedConfig_def trustedPortConfig_def truthy_def)
  have ht: "endsWith (host ?t) ''atlassian.com''"
    and hu: "\<not> endsWith (host ?u) ''atlassian.com''"
    and hn: "host ?u = ''api.atlassian.com:8443''"
    by (simp_all add: host_def endsWith_def)
  have e: "endsWith ''github.internal.atlassian.com'' ''atlassian.com''"
    "endsWith ''api.atlassian.com'' ''atlassian.com''"
    by (simp_all add: endsWith_def)
  have ct: "GitHubClient_constructor exampleURL processProxy trustedConfig =
     ([], Inr \<lparr>restApiUrl = ''https://github.internal.atlassian.com/api/v3'',
               graphqlUrl = ''https://github.internal.atlassian.com/api/graphql'',
               axios = \<lparr>defaults =
                        \<lparr>baseURL = Some ''https://github.internal.atlassian.com/api/v3'',
                         clarifyTimeoutError = Some True, httpAgent = None, httpsAgent = None,
                         proxy = Some False, method = None, url = None, urlParams = None,
                         headers = None, timeout = None, requestStartTime = None\<rparr>,
                        requestInterceptors = [], responseInterceptors = []\<rparr>\<rparr>)"
    unfolding constructor_without_proxyBaseUrl [where newURL = exampleURL, OF ft exampleURL_trusted]
    using ht by (simp add: trustedConfig_def emptyConfig_def axios_create_def)
  have cu: "GitHubClient_constructor exampleURL processProxy trustedPortConfig =
     ([], Inr \<lparr>restApiUrl = ''https://api.atlassian.com:8443/api/v3'',
               graphqlUrl = ''https://api.atlassian.com:8443/api/graphql'',
               axios = \<lparr>defaults =
                        \<lparr>baseURL = Some ''https://api.atlassian.com:8443/api/v3'',
                         clarifyTimeoutError = Some True, httpAgent = None,
                         httpsAgent = Some (HttpsProxyAgent ''http://proxy.internal:3128''),
                         proxy = Some False, method = None, url = None, urlParams = None,
                         headers = None, timeout = None, requestStartTime = None\<rparr>,
                        requestInterceptors = [], responseInterceptors = []\<rparr>\<rparr>)"
    unfolding constructor_without_proxyBaseUrl [where newURL = exampleURL, OF fu exampleURL_trustedPort]
    using hu
    by (simp add: trustedPortConfig_def emptyConfig_def processProxy_def truthy_def
                  axios_create_def)
  show ?thesis
    using ct cu e hn exampleURL_trusted exampleURL_trustedPort
    by (simp add: trustedConfig_def trustedPortConfig_def)
qed

text \<open>
  Claim C10. Without a (non-empty) \<open>proxyBaseUrl\<close> and with a target host that does not end
  with \<open>"atlassian.com"\<close>, whatever else the host is, the transport configuration has no
  HTTP agent and has \<open>proxy: false\<close>, so a plain-HTTP request is sent directly, also when
  the process-wide proxy is set: then the configuration has the HTTPS agent for that proxy
  only, so that an HTTPS request is not sent directly, whereas \<open>buildProxyConfig\<close> for the
  same URL gives plain-HTTP requests an HTTP proxy agent.
\<close>

theorem outbound_proxy_is_https_only:
  assumes "\<not> truthy (proxyBaseUrl gitHubConfig)"
    and "newURL (apiUrl gitHubConfig) = Some u"
    and "\<not> endsWith (host u) ''atlassian.com''"
  shows "\<exists>client. GitHubClient_constructor newURL env gitHubConfig = ([], Inr client) \<and>
           httpAgent (defaults (GitHubClient.axios client)) = None \<and>
           proxy (defaults (GitHubClient.axios client)) = Some False \<and>
           agentFor ''http:'' (defaults (GitHubClient.axios client)) = None \<and>
           sentDirectly ''http:'' (defaults (GitHubClient.axios client)) \<and>
           (\<forall>p. PROXY env = Some p \<and> p \<noteq> [] \<longrightarrow>
              httpsAgent (defaults (GitHubClient.axios client)) = Some (HttpsProxyAgent p) \<and>
              agentFor ''https:'' (defaults (GitHubClient.axios client)) =
                Some (HttpsProxyAgent p) \<and>
              \<not> sentDirectly ''https:'' (defaults (GitHubClient.axios client)) \<and>
              agentFor ''http:'' (snd (buildProxyConfig p)) = Some (HttpProxyAgent p) \<and>
              \<not> sentDirectly ''http:'' (snd (buildProxyConfig p)))"
  unfolding constructor_without_proxyBaseUrl [where newURL = newURL, OF assms(1,2)]
  using assms(3)
  by (simp add: truthy_def emptyConfig_def agentFor_def sentDirectly_def buildProxyConfig_def
                axios_create_def)

theorem outbound_proxy_is_https_only_witness:
  "\<not> truthy (proxyBaseUrl enterpriseConfig) \<and>
   map_option host (exampleURL (apiUrl enterpriseConfig)) = Some ''ghe.example.com'' \<and>
   \<not> endsWith ''ghe.example.com'' ''atlassian.com'' \<and>
   PROXY processProxy = Some ''http://proxy.internal:3128'' \<and>
   (\<exists>client. GitHubClient_constructor exampleURL processProxy enterpriseConfig =
                ([], Inr client) \<and>
      httpAgent (defaults (GitHubClient.axios client)) = None \<and>
      proxy (defaults (GitHubClient.axios client)) = Some False \<and>
      sentDirectly ''http:'' (defaults (GitHubClient.axios client)) \<and>
      httpsAgent (defaults (GitHubClient.axios client)) =
        Some (HttpsProxyAgent ''http://proxy.internal:3128'')) \<and>
   \<not> truthy (proxyBaseUrl addressConfig) \<and>
   map_option host (exampleURL (apiUrl addressConfig)) = Some ''10.0.0.1'' \<and>
   \<not> endsWith ''10.0.0.1'' ''atlassian.com'' \<and>
   (\<exists>client. GitHubClient_constructor exampleURL processProxy addressConfig =
                ([], Inr client) \<and>
      httpAgent (defaults (GitHubClient.axios client)) = None \<and>
      proxy (defaults (GitHubClient.axios client)) = Some False \<and>
      sentDirectly ''http:'' (defaults (GitHubClient.axios client)) \<and>
      httpsAgent (defaults (GitHubClient.axios client)) =
        Some (HttpsProxyAgent ''http://proxy.internal:3128'')) \<and>
   agentFor ''http:'' (snd (buildProxyConfig ''http://proxy.internal:3128'')) =
     Some (HttpProxyAgent ''http://proxy.internal:3128'')"
proof -
  let ?ue = "\<lparr>protocol = ''http:'', URL.hostname = ''ghe.example.com'', port = []\<rparr>"
  let ?ua = "\<lparr>protocol = ''https:'', URL.hostname = ''10.0.0.1'', port = []\<rparr>"
  have te: "\<not> truthy (proxyBaseUrl enterpriseConfig)"
    and ta: "\<not> truthy (proxyBaseUrl addressConfig)"
    by (simp_all add: enterpriseConfig_def addressConfig_def truthy_def)
  have he: "host ?ue = ''ghe.example.com''" and ha: "host ?ua = ''10.0.0.1''"
    by (simp_all add: host_def)
  have ee: "\<not> endsWith ''ghe.example.com'' ''atlassian.com''"
    and ea: "\<not> endsWith ''10.0.0.1'' ''atlassian.com''"
    by (simp_all add: endsWith_def)
  have eh: "\<not> endsWith (host ?ue) ''atlassian.com''"
    and ah: "\<not> endsWith (host ?ua) ''atlassian.com''"
    using ee ea he ha by simp_all
  have pp: "PROXY processProxy = Some ''http://proxy.internal:3128''"
    by (simp add: processProxy_def)
  from outbound_proxy_is_https_only
         [where newURL = exampleURL and env = processProxy, OF te exampleURL_enterprise eh] pp
  have a: "\<exists>client. GitHubClient_constructor exampleURL processProxy enterpriseConfig =
                ([], Inr client) \<and>
      httpAgent (defaults (GitHubClient.axios client)) = None \<and>
      proxy (defaults (GitHubClient.axios client)) = Some False \<and>
      sentDirectly ''http:'' (defaults (GitHubClient.axios client)) \<and>
      httpsAgent (defaults (GitHubClient.axios client)) =
        Some (HttpsProxyAgent ''http://proxy.internal:3128'')"
    and b: "agentFor ''http:'' (snd (buildProxyConfig ''http://proxy.internal:3128'')) =
     Some (HttpProxyAgent ''http://proxy.internal:3128'')"
    by auto
  from outbound_proxy_is_https_only
         [where newURL = exampleURL and env = processProxy, OF ta exampleURL_address ah] pp
  have c: "\<exists>client. GitHubClient_constructor exampleURL processProxy addressConfig =
                ([], Inr client) \<and>
      httpAgent (defaults (GitHubClient.axios client)) = None \<and>
      proxy (defaults (GitHubClient.axios client)) = Some False \<and>
      sentDirectly ''http:'' (defaults (GitHubClient.axios client)) \<and>
      httpsAgent (defaults (GitHubClient.axios client)) =
        Some (HttpsProxyAgent ''http://proxy.internal:3128'')"
    by auto
  show ?thesis
    using a b c te ta exampleURL_enterprise exampleURL_address he ha ee ea pp by simp
qed

section \<open>The App Client: properties\<close>

lemma map_of_assign: "map_of (assign kvs k v) = (map_of kvs)(k \<mapsto> v)"
  by (induction kvs) auto

lemma spreadHeaders_pair: "spreadHeaders prior [(a, x), (b, y)] = assign (assign prior a x) b y"
  by (simp add: spreadHeaders_def)

lemma sent_append: "sent (xs @ ys) = sent xs @ sent ys"
  by (induction xs rule: sent.induct) auto

lemma constructed_client:
  "GitHubAppClient_constructor metricName installation =
   \<lparr>axios =
      \<lparr>defaults = emptyConfig\<lparr>baseURL := Some (githubBaseUrl installation),
                               clarifyTimeoutError := Some True\<rparr>,
       requestInterceptors =
         [SetRequestStartTime, SetRequestTimeout, UrlParamsMiddleware, AppAuthentication],
       responseInterceptors =
         [(None, Some HandleFailedRequest),
          (Some (InstrumentRequest metricName), Some (InstrumentFailedRequest metricName))]\<rparr>,
    githubInstallationId = installation\<rparr>"
  by (simp add: GitHubAppClient_constructor_def axios_create_def request_use_def
                response_use_def)

lemma request_with_token:
  assumes "getAppToken ext (holder s) installation = (Inr appToken, h')"
  shows "\<exists>outgoing.
           headers outgoing =
             Some (spreadHeaders (case headers config of None \<Rightarrow> [] | Some hs \<Rightarrow> hs)
                     [(''Accept'', ''application/vnd.github.machine-man-preview+json''),
                      (''Authorization'', ''Bearer '' @ token appToken)]) \<and>
           axios_request ext (GitHubAppClient_constructor metricName installation) config s =
             (case adapter ext outgoing of
                Inl f \<Rightarrow> Inl (Classified (TransportFailure f))
              | Inr response \<Rightarrow> Inr response,
              \<lparr>holder = h',
               trace = trace s @
                 [RequestInterceptor AppAuthentication, RequestInterceptor UrlParamsMiddleware,
                  RequestInterceptor SetRequestTimeout, RequestInterceptor SetRequestStartTime,
                  DispatchRequest outgoing] @
                 (case adapter ext outgoing of
                    Inl f \<Rightarrow> [ResponseRejected HandleFailedRequest,
                              ResponseRejected (InstrumentFailedRequest metricName)]
                  | Inr response \<Rightarrow> [ResponseFulfilled (InstrumentRequest metricName)])\<rparr>)"
proof -
  define this where "this = GitHubAppClient_constructor metricName installation"
  define merged where
    "merged = spread (emptyConfig\<lparr>baseURL := Some (githubBaseUrl installation),
                                   clarifyTimeoutError := Some True\<rparr>) config"
  define authenticated where
    "authenticated =
       merged\<lparr>headers :=
         Some (spreadHeaders (case headers merged of None \<Rightarrow> [] | Some hs \<Rightarrow> hs)
                 [(''Accept'', ''application/vnd.github.machine-man-preview+json''),
                  (''Authorization'', ''Bearer '' @ token appToken)])\<rparr>"
  define outgoing where
    "outgoing =
       setRequestStartTime (now ext)
         (setRequestTimeout (requestTimeout ext) (urlParamsMiddleware authenticated))"
  have fields:
    "rev (requestInterceptors (axios this)) =
       [AppAuthentication, UrlParamsMiddleware, SetRequestTimeout, SetRequestStartTime]"
    "responseInterceptors (axios this) =
       [(None, Some HandleFailedRequest),
        (Some (InstrumentRequest metricName), Some (InstrumentFailedRequest metricName))]"
    "spread (defaults (axios this)) config = merged"
    "githubInstallationId this = installation"
    by (simp_all add: this_def merged_def constructed_client)
  have merged_headers: "headers merged = headers config"
    by (simp add: merged_def spread_def orElse_def emptyConfig_def split: option.splits)
  have auth: "authenticate ext this merged (holder s) = (Inr authenticated, h')"
    using assms
    by (simp add: authenticate_def appAuthenticationHeaders_def fields authenticated_def)
  have chain:
    "runRequestChain ext this
       [AppAuthentication, UrlParamsMiddleware, SetRequestTimeout, SetRequestStartTime]
       (Inr merged) s =
     (Inr outgoing,
      \<lparr>holder = h',
       trace = trace s @
         [RequestInterceptor AppAuthentication, RequestInterceptor UrlParamsMiddleware,
          RequestInterceptor SetRequestTimeout, RequestInterceptor SetRequestStartTime]\<rparr>)"
    using auth by (simp add: runRequestInterceptor_def outgoing_def)
  have out_headers: "headers outgoing = headers authenticated"
    by (simp add: outgoing_def setRequestStartTime_def setRequestTimeout_def
                  urlParamsMiddleware_def split: option.splits)
  have result:
    "axios_request ext this config s =
       (case adapter ext outgoing of
          Inl f \<Rightarrow> Inl (Classified (TransportFailure f))
        | Inr response \<Rightarrow> Inr response,
        \<lparr>holder = h',
         trace = trace s @
           [RequestInterceptor AppAuthentication, RequestInterceptor UrlParamsMiddleware,
            RequestInterceptor SetRequestTimeout, RequestInterceptor SetRequestStartTime,
            DispatchRequest outgoing] @
           (case adapter ext outgoing of
              Inl f \<Rightarrow> [ResponseRejected HandleFailedRequest,
                        ResponseRejected (InstrumentFailedRequest metricName)]
            | Inr response \<Rightarrow> [ResponseFulfilled (InstrumentRequest metricName)])\<rparr>)"
    unfolding axios_request_def fields chain
    by (simp add: dispatchRequest_def runFulfilled_def runRejected_def handleFailedRequest_def
                  instrumentRequest_def instrumentFailedRequest_def
             split: sum.splits)
  have "headers outgoing =
          Some (spreadHeaders (case headers config of None \<Rightarrow> [] | Some hs \<Rightarrow> hs)
                  [(''Accept'', ''application/vnd.github.machine-man-preview+json''),
                   (''Authorization'', ''Bearer '' @ token appToken)])"
    unfolding out_headers by (simp add: authenticated_def merged_headers)
  with result show ?thesis unfolding this_def by blast
qed

lemma request_without_token:
  assumes "getAppToken ext (holder s) installation = (Inl e, h')"
  shows "axios_request ext (GitHubAppClient_constructor metricName installation) config s =
           (Inl (Classified (AuthenticationFailure e)),
            \<lparr>holder = h',
             trace = trace s @
               [RequestInterceptor AppAuthentication, ResponseRejected HandleFailedRequest,
                ResponseRejected (InstrumentFailedRequest metricName)]\<rparr>)"
proof -
  define this where "this = GitHubAppClient_constructor metricName installation"
  define merged where "merged = spread (defaults (axios this)) config"
  have fields:
    "rev (requestInterceptors (axios this)) =
       [AppAuthentication, UrlParamsMiddleware, SetRequestTimeout, SetRequestStartTime]"
    "responseInterceptors (axios this) =
       [(None, Some HandleFailedRequest),
        (Some (InstrumentRequest metricName), Some (InstrumentFailedRequest metricName))]"
    "githubInstallationId this = installation"
    by (simp_all add: this_def constructed_client)
  have auth: "authenticate ext this merged (holder s) = (Inl (AuthenticationFailure e), h')"
    using assms by (simp add: authenticate_def appAuthenticationHeaders_def fields)
  have chain:
    "runRequestChain ext this
       [AppAuthentication, UrlParamsMiddleware, SetRequestTimeout, SetRequestStartTime]
       (Inr merged) s =
     (Inl (AuthenticationFailure e),
      \<lparr>holder = h', trace = trace s @ [RequestInterceptor AppAuthentication]\<rparr>)"
    using auth by (simp add: runRequestInterceptor_def)
  show ?thesis
    unfolding this_def [symmetric] axios_request_def fields merged_def [symmetric] chain
    by (simp add: dispatchRequest_def runRejected_def handleFailedRequest_def
                  instrumentFailedRequest_def)
qed

lemma perform_is_request:
  "\<exists>config. headers config = None \<and> perform ext this call s = axios_request ext this config s"
proof -
  have found: "\<exists>config. headers config = None \<and>
                 axios_request ext this c s = axios_request ext this config s"
    if "headers c = None" for c
    using that by blast
  show ?thesis
    by (cases call)
       (simp_all add: perform_def getApp_def getInstallation_def getInstallations_def
                      getUserMembershipForOrg_def axios_get_def emptyConfig_def found)
qed

lemma perform_with_token:
  assumes "getAppToken ext (holder s) installation = (Inr appToken, h')"
  shows "\<exists>outgoing.
           headers outgoing =
             Some [(''Accept'', ''application/vnd.github.machine-man-preview+json''),
                   (''Authorization'', ''Bearer '' @ token appToken)] \<and>
           perform ext (GitHubAppClient_constructor metricName installation) call s =
             (case adapter ext outgoing of
                Inl f \<Rightarrow> Inl (Classified (TransportFailure f))
              | Inr response \<Rightarrow> Inr response,
              \<lparr>holder = h',
               trace = trace s @
                 [RequestInterceptor AppAuthentication, RequestInterceptor UrlParamsMiddleware,
                  RequestInterceptor SetRequestTimeout, RequestInterceptor SetRequestStartTime,
                  DispatchRequest outgoing] @
                 (case adapter ext outgoing of
                    Inl f \<Rightarrow> [ResponseRejected HandleFailedRequest,
                              ResponseRejected (InstrumentFailedRequest metricName)]
                  | Inr response \<Rightarrow> [ResponseFulfilled (InstrumentRequest metricName)])\<rparr>)"
proof -
  obtain config where c: "headers config = None"
    and p: "perform ext (GitHubAppClient_constructor metricName installation) call s =
            axios_request ext (GitHubAppClient_constructor metricName installation) config s"
    using perform_is_request by blast
  from request_with_token [OF assms, of config metricName] c
  show ?thesis unfolding p by (simp add: spreadHeaders_def)
qed

lemma perform_without_token:
  assumes "getAppToken ext (holder s) installation = (Inl e, h')"
  shows "perform ext (GitHubAppClient_constructor metricName installation) call s =
           (Inl (Classified (AuthenticationFailure e)),
            \<lparr>holder = h',
             trace = trace s @
               [RequestInterceptor AppAuthentication, ResponseRejected HandleFailedRequest,
                ResponseRejected (InstrumentFailedRequest metricName)]\<rparr>)"
proof -
  obtain config where
    p: "perform ext (GitHubAppClient_constructor metricName installation) call s =
        axios_request ext (GitHubAppClient_constructor metricName installation) config s"
    using perform_is_request by blast
  show ?thesis unfolding p by (rule request_without_token [OF assms])
qed

lemma sent_of_call:
  "sent (events @
     RequestInterceptor AppAuthentication # RequestInterceptor UrlParamsMiddleware #
     RequestInterceptor SetRequestTimeout # RequestInterceptor SetRequestStartTime #
     DispatchRequest outgoing #
     (case outcome of
        Inl f \<Rightarrow> [ResponseRejected HandleFailedRequest,
                  ResponseRejected (InstrumentFailedRequest metricName)]
      | Inr response \<Rightarrow> [ResponseFulfilled (InstrumentRequest metricName)])) =
   sent events @ [outgoing]"
  by (simp add: sent_append split: sum.splits)

lemma perform_sends:
  assumes "getAppToken ext (holder s) installation = (Inr appToken, h')"
  shows "\<exists>outgoing.
           sent (trace (snd (perform ext (GitHubAppClient_constructor metricName installation)
                               call s))) = sent (trace s) @ [outgoing] \<and>
           holder (snd (perform ext (GitHubAppClient_constructor metricName installation)
                          call s)) = h' \<and>
           headers outgoing =
             Some [(''Accept'', ''application/vnd.github.machine-man-preview+json''),
                   (''Authorization'', ''Bearer '' @ token appToken)]"
proof -
  from perform_with_token [OF assms, of metricName call]
  obtain outgoing where
    h: "headers outgoing =
          Some [(''Accept'', ''application/vnd.github.machine-man-preview+json''),
                (''Authorization'', ''Bearer '' @ token appToken)]"
    and p: "perform ext (GitHubAppClient_constructor metricName installation) call s =
             (case adapter ext outgoing of
                Inl f \<Rightarrow> Inl (Classified (TransportFailure f))
              | Inr response \<Rightarrow> Inr response,
              \<lparr>holder = h',
               trace = trace s @
                 [RequestInterceptor AppAuthentication, RequestInterceptor UrlParamsMiddleware,
                  RequestInterceptor SetRequestTimeout, RequestInterceptor SetRequestStartTime,
                  DispatchRequest outgoing] @
                 (case adapter ext outgoing of
                    Inl f \<Rightarrow> [ResponseRejected HandleFailedRequest,
                              ResponseRejected (InstrumentFailedRequest metricName)]
                  | Inr response \<Rightarrow> [ResponseFulfilled (InstrumentRequest metricName)])\<rparr>)"
    by blast
  show ?thesis unfolding p using h by (intro exI [of _ outgoing]) (simp add: sent_of_call)
qed

lemma tokenHolder_token:
  "getAppToken tokenHolder h cloud = (Inr \<lparr>token = h, expiresAt = 600\<rparr>, h)"
  by (simp add: tokenHolder_def)

text \<open>
  Claim C6. Whatever public method of the App Client is called (\<open>getApp\<close>,
  \<open>getInstallation\<close>, \<open>getInstallations\<close>, \<open>getUserMembershipForOrg\<close>), when the Token
  Provider answers, exactly one request is handed to the network and it carries
  \<open>Authorization: Bearer\<close> followed by the token the Provider returned for the installation
  identity in its state at that call, and the \<open>Accept\<close> header of the app-preview media type.
  Two calls in sequence with the Provider's state changed in between (a rotation) each carry
  the token the Provider returns at their own dispatch: the client keeps no token.
\<close>

theorem app_client_authenticates_at_dispatch:
  fixes ext :: "('h, 'b) externals"
  assumes "getAppToken ext (holder s) installation = (Inr appToken, h')"
  shows "(\<exists>outgoing.
            sent (trace (snd (perform ext (GitHubAppClient_constructor metricName installation)
                                call s))) = sent (trace s) @ [outgoing] \<and>
            header ''Authorization'' outgoing = Some (''Bearer '' @ token appToken) \<and>
            header ''Accept'' outgoing =
              Some ''application/vnd.github.machine-man-preview+json'') \<and>
         (\<forall>(ext' :: ('h, 'b) externals) call' rotated appToken' h''.
            getAppToken ext' rotated installation = (Inr appToken', h'') \<longrightarrow>
            (\<exists>first second.
               sent (trace (snd (perform ext'
                                   (GitHubAppClient_constructor metricName installation) call'
                                   ((snd (perform ext
                                            (GitHubAppClient_constructor metricName installation)
                                            call s))\<lparr>holder := rotated\<rparr>)))) =
                 sent (trace s) @ [first, second] \<and>
               header ''Authorization'' first = Some (''Bearer '' @ token appToken) \<and>
               header ''Authorization'' second = Some (''Bearer '' @ token appToken')))"
proof -
  let ?client = "GitHubAppClient_constructor metricName installation"
  from perform_sends [OF assms, of metricName call]
  obtain outgoing where
    o: "sent (trace (snd (perform ext ?client call s))) = sent (trace s) @ [outgoing]"
       "headers outgoing =
          Some [(''Accept'', ''application/vnd.github.machine-man-preview+json''),
                (''Authorization'', ''Bearer '' @ token appToken)]"
    by blast
  then have one: "\<exists>outgoing.
            sent (trace (snd (perform ext ?client call s))) = sent (trace s) @ [outgoing] \<and>
            header ''Authorization'' outgoing = Some (''Bearer '' @ token appToken) \<and>
            header ''Accept'' outgoing =
              Some ''application/vnd.github.machine-man-preview+json''"
    by (intro exI [of _ outgoing]) (simp add: header_def)
  have two: "\<exists>first second.
          sent (trace (snd (perform ext' ?client call'
                              ((snd (perform ext ?client call s))\<lparr>holder := rotated\<rparr>)))) =
            sent (trace s) @ [first, second] \<and>
          header ''Authorization'' first = Some (''Bearer '' @ token appToken) \<and>
          header ''Authorization'' second = Some (''Bearer '' @ token appToken')"
    if rotated: "getAppToken ext' rotated installation = (Inr appToken', h'')"
    for ext' :: "('h, 'b) externals" and call' rotated appToken' h''
  proof -
    let ?s' = "(snd (perform ext ?client call s))\<lparr>holder := rotated\<rparr>"
    have "getAppToken ext' (holder ?s') installation = (Inr appToken', h'')"
      using rotated by simp
    from perform_sends [OF this, of metricName call']
    obtain second where
      n: "sent (trace (snd (perform ext' ?client call' ?s'))) = sent (trace ?s') @ [second]"
         "headers second =
            Some [(''Accept'', ''application/vnd.github.machine-man-preview+json''),
                  (''Authorization'', ''Bearer '' @ token appToken')]"
      by blast
    show ?thesis
      using o n by (intro exI [of _ outgoing] exI [of _ second]) (simp add: header_def)
  qed
  from one two show ?thesis by blast
qed

theorem app_client_authenticates_at_dispatch_witness:
  "getAppToken tokenHolder (holder idle) cloud =
     (Inr \<lparr>token = ''jwt-1'', expiresAt = 600\<rparr>, ''jwt-1'') \<and>
   getAppToken tokenHolder ''jwt-2'' cloud =
     (Inr \<lparr>token = ''jwt-2'', expiresAt = 600\<rparr>, ''jwt-2'') \<and>
   (\<exists>outgoing.
      sent (trace (snd (perform tokenHolder appClient (GetInstallation 42) idle))) = [outgoing] \<and>
      header ''Authorization'' outgoing = Some ''Bearer jwt-1'' \<and>
      header ''Accept'' outgoing = Some ''application/vnd.github.machine-man-preview+json'') \<and>
   (\<exists>first second.
      sent (trace (snd (perform tokenHolder appClient GetApp
                          ((snd (perform tokenHolder appClient (GetInstallation 42) idle))
                             \<lparr>holder := ''jwt-2''\<rparr>)))) = [first, second] \<and>
      header ''Authorization'' first = Some ''Bearer jwt-1'' \<and>
      header ''Authorization'' second = Some ''Bearer jwt-2'')"
proof -
  have t1: "getAppToken tokenHolder (holder idle) cloud =
              (Inr \<lparr>token = ''jwt-1'', expiresAt = 600\<rparr>, ''jwt-1'')"
    by (simp add: tokenHolder_token idle_def)
  have t2: "getAppToken tokenHolder ''jwt-2'' cloud =
              (Inr \<lparr>token = ''jwt-2'', expiresAt = 600\<rparr>, ''jwt-2'')"
    by (simp add: tokenHolder_token)
  note w = app_client_authenticates_at_dispatch
             [OF t1, of "''app.server.http.request.github''" "GetInstallation 42",
              folded appClient_def]
  from w [THEN conjunct1] have a: "\<exists>outgoing.
      sent (trace (snd (perform tokenHolder appClient (GetInstallation 42) idle))) = [outgoing] \<and>
      header ''Authorization'' outgoing = Some ''Bearer jwt-1'' \<and>
      header ''Accept'' outgoing = Some ''application/vnd.github.machine-man-preview+json''"
    by (simp add: idle_def)
  from w [THEN conjunct2, rule_format, OF t2] have b: "\<exists>first second.
      sent (trace (snd (perform tokenHolder appClient GetApp
                          ((snd (perform tokenHolder appClient (GetInstallation 42) idle))
                             \<lparr>holder := ''jwt-2''\<rparr>)))) = sent (trace idle) @ [first, second] \<and>
      header ''Authorization'' first = Some (''Bearer '' @ token \<lparr>token = ''jwt-1'', expiresAt = 600\<rparr>) \<and>
      header ''Authorization'' second = Some (''Bearer '' @ token \<lparr>token = ''jwt-2'', expiresAt = 600\<rparr>)"
    .
  then have b': "\<exists>first second.
      sent (trace (snd (perform tokenHolder appClient GetApp
                          ((snd (perform tokenHolder appClient (GetInstallation 42) idle))
                             \<lparr>holder := ''jwt-2''\<rparr>)))) = [first, second] \<and>
      header ''Authorization'' first = Some ''Bearer jwt-1'' \<and>
      header ''Authorization'' second = Some ''Bearer jwt-2''"
    by (simp add: idle_def)
  from t1 t2 a b' show ?thesis by blast
qed

text \<open>
  Claim C7, amended. The constructor registers the request-side transforms in the order
  start time, timeout, URL parameters, authentication header, and the response-side handlers
  in the order failure classification, instrumentation. The transport library runs request
  interceptors last-registered-first: on every call the authentication header is injected
  first, then the URL parameters are substituted, then the timeout is set, then the start
  time is recorded, and then the request is dispatched. On the response path a success is
  instrumented and returned; a failure is classified, instrumented and rejected again, never
  swallowed; a failure of the Token Provider skips the remaining request transforms and the
  dispatch and is classified and rejected in the same way.
\<close>

theorem interceptors_run_last_registered_first:
  fixes ext :: "('h, 'b) externals"
  shows
    "requestInterceptors (axios (GitHubAppClient_constructor metricName installation)) =
       [SetRequestStartTime, SetRequestTimeout, UrlParamsMiddleware, AppAuthentication] \<and>
     responseInterceptors (axios (GitHubAppClient_constructor metricName installation)) =
       [(None, Some HandleFailedRequest),
        (Some (InstrumentRequest metricName), Some (InstrumentFailedRequest metricName))] \<and>
     (\<forall>appToken h'.
        getAppToken ext (holder s) installation = (Inr appToken, h') \<longrightarrow>
        (\<exists>outgoing.
           trace (snd (perform ext (GitHubAppClient_constructor metricName installation)
                         call s)) =
             trace s @
             [RequestInterceptor AppAuthentication, RequestInterceptor UrlParamsMiddleware,
              RequestInterceptor SetRequestTimeout, RequestInterceptor SetRequestStartTime,
              DispatchRequest outgoing] @
             (case adapter ext outgoing of
                Inl f \<Rightarrow> [ResponseRejected HandleFailedRequest,
                          ResponseRejected (InstrumentFailedRequest metricName)]
              | Inr response \<Rightarrow> [ResponseFulfilled (InstrumentRequest metricName)]) \<and>
           fst (perform ext (GitHubAppClient_constructor metricName installation) call s) =
             (case adapter ext outgoing of
                Inl f \<Rightarrow> Inl (Classified (TransportFailure f))
              | Inr response \<Rightarrow> Inr response))) \<and>
     (\<forall>e h'.
        getAppToken ext (holder s) installation = (Inl e, h') \<longrightarrow>
        perform ext (GitHubAppClient_constructor metricName installation) call s =
          (Inl (Classified (AuthenticationFailure e)),
           \<lparr>holder = h',
            trace = trace s @
              [RequestInterceptor AppAuthentication, ResponseRejected HandleFailedRequest,
               ResponseRejected (InstrumentFailedRequest metricName)]\<rparr>))"
proof -
  let ?client = "GitHubAppClient_constructor metricName installation"
  have registered:
    "requestInterceptors (axios ?client) =
       [SetRequestStartTime, SetRequestTimeout, UrlParamsMiddleware, AppAuthentication]"
    "responseInterceptors (axios ?client) =
       [(None, Some HandleFailedRequest),
        (Some (InstrumentRequest metricName), Some (InstrumentFailedRequest metricName))]"
    by (simp_all add: constructed_client)
  have ran: "\<exists>outgoing.
           trace (snd (perform ext ?client call s)) =
             trace s @
             [RequestInterceptor AppAuthentication, RequestInterceptor UrlParamsMiddleware,
              RequestInterceptor SetRequestTimeout, RequestInterceptor SetRequestStartTime,
              DispatchRequest outgoing] @
             (case adapter ext outgoing of
                Inl f \<Rightarrow> [ResponseRejected HandleFailedRequest,
                          ResponseRejected (InstrumentFailedRequest metricName)]
              | Inr response \<Rightarrow> [ResponseFulfilled (InstrumentRequest metricName)]) \<and>
           fst (perform ext ?client call s) =
             (case adapter ext outgoing of
                Inl f \<Rightarrow> Inl (Classified (TransportFailure f))
              | Inr response \<Rightarrow> Inr response)"
    if "getAppToken ext (holder s) installation = (Inr appToken, h')" for appToken h'
  proof -
    from perform_with_token [OF that, of metricName call]
    obtain outgoing where
      "perform ext ?client call s =
         (case adapter ext outgoing of
            Inl f \<Rightarrow> Inl (Classified (TransportFailure f))
          | Inr response \<Rightarrow> Inr response,
          \<lparr>holder = h',
           trace = trace s @
             [RequestInterceptor AppAuthentication, RequestInterceptor UrlParamsMiddleware,
              RequestInterceptor SetRequestTimeout, RequestInterceptor SetRequestStartTime,
              DispatchRequest outgoing] @
             (case adapter ext outgoing of
                Inl f \<Rightarrow> [ResponseRejected HandleFailedRequest,
                          ResponseRejected (InstrumentFailedRequest metricName)]
              | Inr response \<Rightarrow> [ResponseFulfilled (InstrumentRequest metricName)])\<rparr>)"
      by blast
    then show ?thesis by (intro exI [of _ outgoing]) simp
  qed
  have failed: "perform ext ?client call s =
          (Inl (Classified (AuthenticationFailure e)),
           \<lparr>holder = h',
            trace = trace s @
              [RequestInterceptor AppAuthentication, ResponseRejected HandleFailedRequest,
               ResponseRejected (InstrumentFailedRequest metricName)]\<rparr>)"
    if "getAppToken ext (holder s) installation = (Inl e, h')" for e h'
    using that by (rule perform_without_token)
  from registered ran failed show ?thesis by blast
qed

theorem interceptors_run_last_registered_first_witness:
  "getAppToken tokenHolder (holder idle) cloud =
     (Inr \<lparr>token = ''jwt-1'', expiresAt = 600\<rparr>, ''jwt-1'') \<and>
   (\<exists>outgoing.
      trace (snd (perform tokenHolder appClient GetApp idle)) =
        [RequestInterceptor AppAuthentication, RequestInterceptor UrlParamsMiddleware,
         RequestInterceptor SetRequestTimeout, RequestInterceptor SetRequestStartTime,
         DispatchRequest outgoing,
         ResponseFulfilled (InstrumentRequest ''app.server.http.request.github'')] \<and>
      fst (perform tokenHolder appClient GetApp idle) =
        Inr \<lparr>status = 200, AxiosResponse.headers = [], body = ()\<rparr>) \<and>
   getAppToken unreachable (holder idle) cloud =
     (Inr \<lparr>token = ''jwt-1'', expiresAt = 600\<rparr>, ''jwt-1'') \<and>
   (\<exists>outgoing.
      trace (snd (perform unreachable appClient GetApp idle)) =
        [RequestInterceptor AppAuthentication, RequestInterceptor UrlParamsMiddleware,
         RequestInterceptor SetRequestTimeout, RequestInterceptor SetRequestStartTime,
         DispatchRequest outgoing, ResponseRejected HandleFailedRequest,
         ResponseRejected (InstrumentFailedRequest ''app.server.http.request.github'')] \<and>
      fst (perform unreachable appClient GetApp idle) =
        Inl (Classified (TransportFailure Timeout)))"
proof -
  have t1: "getAppToken tokenHolder (holder idle) cloud =
              (Inr \<lparr>token = ''jwt-1'', expiresAt = 600\<rparr>, ''jwt-1'')"
    by (simp add: tokenHolder_def idle_def)
  have t2: "getAppToken unreachable (holder idle) cloud =
              (Inr \<lparr>token = ''jwt-1'', expiresAt = 600\<rparr>, ''jwt-1'')"
    by (simp add: unreachable_def tokenHolder_def idle_def)
  have a1: "adapter tokenHolder c = Inr \<lparr>status = 200, AxiosResponse.headers = [], body = ()\<rparr>"
    and a2: "adapter unreachable c = Inl Timeout" for c
    by (simp_all add: unreachable_def tokenHolder_def)
  note w1 = interceptors_run_last_registered_first
              [where ext = tokenHolder and s = idle and installation = cloud
                 and metricName = "''app.server.http.request.github''" and call = GetApp,
               folded appClient_def, THEN conjunct2, THEN conjunct2, THEN conjunct1,
               rule_format, OF t1]
  note w2 = interceptors_run_last_registered_first
              [where ext = unreachable and s = idle and installation = cloud
                 and metricName = "''app.server.http.request.github''" and call = GetApp,
               folded appClient_def, THEN conjunct2, THEN conjunct2, THEN conjunct1,
               rule_format, OF t2]
  from w1 have b1: "\<exists>outgoing.
      trace (snd (perform tokenHolder appClient GetApp idle)) =
        [RequestInterceptor AppAuthentication, RequestInterceptor UrlParamsMiddleware,
         RequestInterceptor SetRequestTimeout, RequestInterceptor SetRequestStartTime,
         DispatchRequest outgoing,
         ResponseFulfilled (InstrumentRequest ''app.server.http.request.github'')] \<and>
      fst (perform tokenHolder appClient GetApp idle) =
        Inr \<lparr>status = 200, AxiosResponse.headers = [], body = ()\<rparr>"
    unfolding a1 by (simp add: idle_def)
  from w2 have b2: "\<exists>outgoing.
      trace (snd (perform unreachable appClient GetApp idle)) =
        [RequestInterceptor AppAuthentication, RequestInterceptor UrlParamsMiddleware,
         RequestInterceptor SetRequestTimeout, RequestInterceptor SetRequestStartTime,
         DispatchRequest outgoing, ResponseRejected HandleFailedRequest,
         ResponseRejected (InstrumentFailedRequest ''app.server.http.request.github'')] \<and>
      fst (perform unreachable appClient GetApp idle) =
        Inl (Classified (TransportFailure Timeout))"
    unfolding a2 by (simp add: idle_def)
  from t1 t2 b1 b2 show ?thesis by blast
qed

theorem authentication_runs_first_counterexample:
  "trace (snd (getApp tokenHolder appClient idle)) =
     [RequestInterceptor AppAuthentication, RequestInterceptor UrlParamsMiddleware,
      RequestInterceptor SetRequestTimeout, RequestInterceptor SetRequestStartTime,
      DispatchRequest
        \<lparr>baseURL = Some ''https://api.github.com'', clarifyTimeoutError = Some True,
         httpAgent = None, httpsAgent = None, proxy = None, method = Some ''get'',
         url = Some ''/app'', urlParams = None,
         headers = Some [(''Accept'', ''application/vnd.github.machine-man-preview+json''),
                         (''Authorization'', ''Bearer jwt-1'')],
         timeout = Some 30000, requestStartTime = Some 1000\<rparr>,
      ResponseFulfilled (InstrumentRequest ''app.server.http.request.github'')] \<and>
   take 4 (trace (snd (getApp tokenHolder appClient idle))) \<noteq>
     [RequestInterceptor SetRequestStartTime, RequestInterceptor SetRequestTimeout,
      RequestInterceptor UrlParamsMiddleware, RequestInterceptor AppAuthentication]"
  by (simp add: getApp_def axios_get_def axios_request_def appClient_def constructed_client
                cloud_def idle_def tokenHolder_def emptyConfig_def spread_def orElse_def
                runRequestInterceptor_def authenticate_def appAuthenticationHeaders_def
                spreadHeaders_def urlParamsMiddleware_def setRequestTimeout_def
                setRequestStartTime_def dispatchRequest_def runFulfilled_def
                instrumentRequest_def)

text \<open>
  Claim C8, amended. The App Client's header-injection step has one authentication mode:
  whatever endpoint is called, the request handed to the network gets the same two headers,
  the app-preview \<open>Accept\<close> and \<open>Authorization: Bearer\<close> with the app token (the JWT) that the
  Token Provider returns; nothing in the request selects another credential. In particular
  \<open>getInstallation\<close> dispatches its request with that token in the header.
\<close>

theorem every_endpoint_carries_the_app_token:
  fixes ext :: "('h, 'b) externals"
  assumes "getAppToken ext (holder s) installation = (Inr appToken, h')"
  shows "(\<exists>outgoing.
            sent (trace (snd (perform ext (GitHubAppClient_constructor metricName installation)
                                call s))) = sent (trace s) @ [outgoing] \<and>
            headers outgoing =
              Some [(''Accept'', ''application/vnd.github.machine-man-preview+json''),
                    (''Authorization'', ''Bearer '' @ token appToken)]) \<and>
         (\<exists>outgoing.
            sent (trace (snd (getInstallation ext
                                (GitHubAppClient_constructor metricName installation)
                                installationId s))) = sent (trace s) @ [outgoing] \<and>
            header ''Authorization'' outgoing = Some (''Bearer '' @ token appToken))"
proof -
  have any: "\<exists>outgoing.
            sent (trace (snd (perform ext (GitHubAppClient_constructor metricName installation)
                                c s))) = sent (trace s) @ [outgoing] \<and>
            headers outgoing =
              Some [(''Accept'', ''application/vnd.github.machine-man-preview+json''),
                    (''Authorization'', ''Bearer '' @ token appToken)]" for c
    using perform_sends [OF assms, of metricName c] by blast
  from any [of "GetInstallation installationId"]
  have "\<exists>outgoing.
            sent (trace (snd (getInstallation ext
                                (GitHubAppClient_constructor metricName installation)
                                installationId s))) = sent (trace s) @ [outgoing] \<and>
            header ''Authorization'' outgoing = Some (''Bearer '' @ token appToken)"
    by (auto simp: perform_def header_def)
  with any [of call] show ?thesis by blast
qed

theorem every_endpoint_carries_the_app_token_witness:
  "getAppToken tokenHolder (holder idle) cloud =
     (Inr \<lparr>token = ''jwt-1'', expiresAt = 600\<rparr>, ''jwt-1'') \<and>
   (\<exists>outgoing.
      sent (trace (snd (perform tokenHolder appClient (GetUserMembershipForOrg ''octocat'' ''acme'')
                          idle))) = [outgoing] \<and>
      headers outgoing =
        Some [(''Accept'', ''application/vnd.github.machine-man-preview+json''),
              (''Authorization'', ''Bearer jwt-1'')]) \<and>
   (\<exists>outgoing.
      sent (trace (snd (getInstallation tokenHolder appClient 42 idle))) = [outgoing] \<and>
      header ''Authorization'' outgoing = Some ''Bearer jwt-1'')"
proof -
  have t1: "getAppToken tokenHolder (holder idle) cloud =
              (Inr \<lparr>token = ''jwt-1'', expiresAt = 600\<rparr>, ''jwt-1'')"
    by (simp add: tokenHolder_def idle_def)
  from every_endpoint_carries_the_app_token
         [OF t1, of "''app.server.http.request.github''"
            "GetUserMembershipForOrg ''octocat'' ''acme''" 42, folded appClient_def]
  have "(\<exists>outgoing.
      sent (trace (snd (perform tokenHolder appClient (GetUserMembershipForOrg ''octocat'' ''acme'')
                          idle))) = [outgoing] \<and>
      headers outgoing =
        Some [(''Accept'', ''application/vnd.github.machine-man-preview+json''),
              (''Authorization'', ''Bearer jwt-1'')]) \<and>
   (\<exists>outgoing.
      sent (trace (snd (getInstallation tokenHolder appClient 42 idle))) = [outgoing] \<and>
      header ''Authorization'' outgoing = Some ''Bearer jwt-1'')"
    by (simp add: idle_def)
  with t1 show ?thesis by blast
qed

theorem one_credential_for_all_endpoints_counterexample:
  "map headers (sent (trace (snd (getInstallation tokenHolder appClient 42 idle)))) =
     [Some [(''Accept'', ''application/vnd.github.machine-man-preview+json''),
            (''Authorization'', ''Bearer jwt-1'')]] \<and>
   map headers (sent (trace (snd (getApp tokenHolder appClient idle)))) =
     [Some [(''Accept'', ''application/vnd.github.machine-man-preview+json''),
            (''Authorization'', ''Bearer jwt-1'')]] \<and>
   map headers (sent (trace (snd (getInstallations tokenHolder appClient idle)))) =
     [Some [(''Accept'', ''application/vnd.github.machine-man-preview+json''),
            (''Authorization'', ''Bearer jwt-1'')]] \<and>
   map headers (sent (trace (snd (getUserMembershipForOrg tokenHolder appClient
                                   ''octocat'' ''acme'' idle)))) =
     [Some [(''Accept'', ''application/vnd.github.machine-man-preview+json''),
            (''Authorization'', ''Bearer jwt-1'')]]"
proof -
  have t1: "getAppToken tokenHolder (holder idle) cloud =
              (Inr \<lparr>token = ''jwt-1'', expiresAt = 600\<rparr>, ''jwt-1'')"
    by (simp add: tokenHolder_def idle_def)
  have any: "map headers (sent (trace (snd (perform tokenHolder appClient c idle)))) =
     [Some [(''Accept'', ''application/vnd.github.machine-man-preview+json''),
            (''Authorization'', ''Bearer jwt-1'')]]" for c
    using perform_sends [OF t1, of "''app.server.http.request.github''" c, folded appClient_def]
    by (auto simp: idle_def)
  from any [of "GetInstallation 42"] any [of GetApp] any [of GetInstallations]
       any [of "GetUserMembershipForOrg ''octocat'' ''acme''"]
  show ?thesis by (simp add: perform_def)
qed

end
